theory Spec2Isabelle
  imports
    Complex_Main
    "HOL-Library.Char_ord"
    "HOL-Library.List_Lexorder"
    "HOL-Library.Product_Lexorder"
begin

section \<open>Security master builder (dictionary\_builder.py)\<close>

text \<open>
  The five columns \<open>create_security_master\<close> reads from the store. A trade date is a
  day number (\<open>datetime64\<close>); every column is nullable (\<open>NaT\<close>, \<open>None\<close>/\<open>NaN\<close>).
\<close>

record quote_row =
  DATA_PREGAO :: "int option"
  CODISI :: "string option"
  CODNEG :: "string option"
  NOMRES :: "string option"
  ESPECI :: "string option"

text \<open>One row of \<open>dicionario_ativos\<close>, columns in the order of \<open>cols_ordem\<close>.\<close>

record master_entry =
  M_CODISI :: "string option"
  ULTIMO_TICKER :: "string option"
  ULTIMO_NOME :: "string option"
  ULTIMA_ESPECIFICACAO :: "string option"
  TICKERS_HISTORICOS :: "string option"
  NOMES_HISTORICOS :: "string option"

text \<open>\<open>df_full.dropna(subset=['CODISI'])\<close>\<close>

definition dropna_codisi :: "quote_row list \<Rightarrow> quote_row list" where
  "dropna_codisi rows = filter (\<lambda>r. CODISI r \<noteq> None) rows"

text \<open>
  \<open>sort_values('DATA_PREGAO', ascending=False)\<close>: later dates first, \<open>NaT\<close> last
  (\<open>na_position='last'\<close>). The sort key orders pairs lexicographically.
\<close>

definition desc_date_key :: "quote_row \<Rightarrow> nat \<times> int" where
  "desc_date_key r = (case DATA_PREGAO r of None \<Rightarrow> (1, 0) | Some d \<Rightarrow> (0, - d))"

definition sort_values_date_desc :: "quote_row list \<Rightarrow> quote_row list" where
  "sort_values_date_desc rows = sort_key desc_date_key rows"

text \<open>\<open>drop_duplicates(subset=['CODISI'], keep='first')\<close>\<close>

fun drop_duplicates :: "quote_row list \<Rightarrow> quote_row list" where
  "drop_duplicates [] = []"
| "drop_duplicates (r # rs) =
     r # drop_duplicates (filter (\<lambda>s. CODISI s \<noteq> CODISI r) rs)"

text \<open>\<open>Series.unique()\<close>: the distinct values in order of first appearance.\<close>

definition unique :: "'a list \<Rightarrow> 'a list" where
  "unique xs = rev (remdups (rev xs))"

text \<open>\<open>sep.join(tokens)\<close>\<close>

fun join :: "string \<Rightarrow> string list \<Rightarrow> string" where
  "join sep [] = []"
| "join sep [t] = t"
| "join sep (t # u # us) = t @ sep @ join sep (u # us)"

text \<open>
  The list inside the lambda of the two \<open>groupby\<close> steps:
  \<open>sorted([str(item) for item in x.unique() if pd.notna(item)])\<close>.
\<close>

definition trail_tokens :: "string option list \<Rightarrow> string list" where
  "trail_tokens x = sort (concat (map (\<lambda>item. case item of None \<Rightarrow> [] | Some s \<Rightarrow> [s]) (unique x)))"

definition trail :: "string option list \<Rightarrow> string" where
  "trail x = join '' | '' (trail_tokens x)"

text \<open>
  \<open>df_ativos.groupby('CODISI')[col].apply(...).reset_index()\<close>: one pair per group key,
  keys ascending.
\<close>

definition group_keys :: "quote_row list \<Rightarrow> string list" where
  "group_keys rows = sort (remdups (concat (map (\<lambda>r. case CODISI r of None \<Rightarrow> [] | Some k \<Rightarrow> [k]) rows)))"

definition group_values :: "(quote_row \<Rightarrow> string option) \<Rightarrow> string \<Rightarrow> quote_row list \<Rightarrow> string option list" where
  "group_values col k rows = map col (filter (\<lambda>r. CODISI r = Some k) rows)"

definition variacoes :: "(quote_row \<Rightarrow> string option) \<Rightarrow> quote_row list \<Rightarrow> (string \<times> string) list" where
  "variacoes col rows = map (\<lambda>k. (k, trail (group_values col k rows))) (group_keys rows)"

text \<open>
  The base table (rename, drop the date) merged twice with \<open>how='left'\<close> on \<open>CODISI\<close>;
  a key with no partner on the right leaves the trail missing.
\<close>

definition lookup_left :: "(string \<times> string) list \<Rightarrow> string option \<Rightarrow> string option" where
  "lookup_left right k = (case k of None \<Rightarrow> None | Some k' \<Rightarrow> map_of right k')"

definition merge_entry :: "(string \<times> string) list \<Rightarrow> (string \<times> string) list \<Rightarrow> quote_row \<Rightarrow> master_entry" where
  "merge_entry vt vn r =
     \<lparr> M_CODISI = CODISI r, ULTIMO_TICKER = CODNEG r, ULTIMO_NOME = NOMRES r,
       ULTIMA_ESPECIFICACAO = ESPECI r,
       TICKERS_HISTORICOS = lookup_left vt (CODISI r),
       NOMES_HISTORICOS = lookup_left vn (CODISI r) \<rparr>"

text \<open>\<open>sort_values('ULTIMO_TICKER')\<close>: ascending, missing tickers last.\<close>

definition ticker_key :: "master_entry \<Rightarrow> nat \<times> string" where
  "ticker_key e = (case ULTIMO_TICKER e of None \<Rightarrow> (1, []) | Some t \<Rightarrow> (0, t))"

definition df_base_ativos :: "quote_row list \<Rightarrow> quote_row list" where
  "df_base_ativos df_ativos = drop_duplicates (sort_values_date_desc df_ativos)"

definition security_master :: "quote_row list \<Rightarrow> master_entry list" where
  "security_master df_full =
     (let df_ativos = dropna_codisi df_full;
          vt = variacoes CODNEG df_ativos;
          vn = variacoes NOMRES df_ativos
      in sort_key ticker_key (map (merge_entry vt vn) (df_base_ativos df_ativos)))"

text \<open>
  \<open>create_security_master\<close>: without the store file nothing is produced (the early
  \<open>return\<close>); otherwise the table above is what both artifacts hold.
\<close>

definition create_security_master :: "quote_row list option \<Rightarrow> master_entry list option" where
  "create_security_master parquet_file = map_option security_master parquet_file"

text \<open>Order of trade dates with the missing date below every date.\<close>

fun date_le :: "int option \<Rightarrow> int option \<Rightarrow> bool" where
  "date_le None _ = True"
| "date_le (Some a) None = False"
| "date_le (Some a) (Some b) = (a \<le> b)"

text \<open>The scenario of the specification: one identifier traded as \<open>PETR3\<close> and, a day later,
  as \<open>PETR4\<close>, and a row with no identifier.\<close>

definition rows0 :: "quote_row list" where
  "rows0 =
    [\<lparr>DATA_PREGAO = Some 19360, CODISI = Some ''BRPETRACNPR6'', CODNEG = Some ''PETR3'',
      NOMRES = Some ''PETROBRAS'', ESPECI = Some ''ON''\<rparr>,
     \<lparr>DATA_PREGAO = Some 19361, CODISI = Some ''BRPETRACNPR6'', CODNEG = Some ''PETR4'',
      NOMRES = Some ''PETROBRAS'', ESPECI = Some ''PN''\<rparr>,
     \<lparr>DATA_PREGAO = Some 19361, CODISI = None, CODNEG = Some ''IBOV11'',
      NOMRES = None, ESPECI = None\<rparr>]"

text \<open>A store in which one row of the identifier holds the empty text as its ticker.\<close>

definition rows_empty_ticker :: "quote_row list" where
  "rows_empty_ticker =
    [\<lparr>DATA_PREGAO = Some 19360, CODISI = Some ''BRPETRACNPR6'', CODNEG = Some [],
      NOMRES = Some ''PETROBRAS'', ESPECI = Some ''ON''\<rparr>,
     \<lparr>DATA_PREGAO = Some 19361, CODISI = Some ''BRPETRACNPR6'', CODNEG = Some ''PETR4'',
      NOMRES = Some ''PETROBRAS'', ESPECI = Some ''PN''\<rparr>]"


section \<open>Query engine (analyzer.py)\<close>

subsection \<open>Python values, exceptions and text helpers\<close>

text \<open>The exceptions the engine's code can raise; \<open>ScanError\<close> stands for whatever the
  storage layer raises while reading the store.\<close>

datatype exn = ValueError | TypeError | AttributeError | KeyError | ReError | ScanError

text \<open>
  Keyword arguments hold \<open>None\<close>, an integer, a text, or a flat list of these (the
  documented argument types \<open>Union[int, str, List]\<close>). \<open>**kwargs\<close> is a dictionary.
\<close>

datatype atom = ANone | AInt int | AStr string

datatype pyval = Atom atom | PList "atom list"

type_synonym kwargs = "string \<rightharpoonup> pyval"

text \<open>\<open>params.get(k)\<close>: the value, or \<open>None\<close> when the key is absent.\<close>

definition dict_get :: "kwargs \<Rightarrow> string \<Rightarrow> pyval" where
  "dict_get params k = (case params k of None \<Rightarrow> Atom ANone | Some v \<Rightarrow> v)"

text \<open>Truth value of an object in a condition.\<close>

fun truthy :: "pyval \<Rightarrow> bool" where
  "truthy (Atom ANone) = False"
| "truthy (Atom (AInt i)) = (i \<noteq> 0)"
| "truthy (Atom (AStr s)) = (s \<noteq> [])"
| "truthy (PList xs) = (xs \<noteq> [])"

text \<open>Texts are lists of characters with code points below 256 (the encoding of the
  input files is Latin-1). On the ASCII letters \<open>str.upper\<close> and \<open>str.lower\<close> are the
  following maps; other ASCII characters are kept.\<close>

definition upper_char :: "char \<Rightarrow> char" where
  "upper_char c = (if CHR ''a'' \<le> c \<and> c \<le> CHR ''z'' then char_of (of_char c - (32::nat)) else c)"

definition lower_char :: "char \<Rightarrow> char" where
  "lower_char c = (if CHR ''A'' \<le> c \<and> c \<le> CHR ''Z'' then char_of (of_char c + (32::nat)) else c)"

definition ascii_upper :: "string \<Rightarrow> string" where
  "ascii_upper s = map upper_char s"

definition ascii_lower :: "string \<Rightarrow> string" where
  "ascii_lower s = map lower_char s"

definition is_ascii :: "string \<Rightarrow> bool" where
  "is_ascii s = list_all (\<lambda>c. c \<le> CHR 0x7F) s"

definition is_upper_AZ :: "char \<Rightarrow> bool" where
  "is_upper_AZ c = (CHR ''A'' \<le> c \<and> c \<le> CHR ''Z'')"

definition is_digit_09 :: "char \<Rightarrow> bool" where
  "is_digit_09 c = (CHR ''0'' \<le> c \<and> c \<le> CHR ''9'')"

text \<open>\<open>s.startswith(p)\<close>, \<open>s.endswith(p)\<close> and the substring test \<open>p in s\<close>.\<close>

definition startswith :: "string \<Rightarrow> string \<Rightarrow> bool" where
  "startswith s p = (take (length p) s = p)"

definition endswith :: "string \<Rightarrow> string \<Rightarrow> bool" where
  "endswith s p = (length p \<le> length s \<and> drop (length s - length p) s = p)"

fun contains :: "string \<Rightarrow> string \<Rightarrow> bool" where
  "contains [] p = (p = [])"
| "contains (c # cs) p = (startswith (c # cs) p \<or> contains cs p)"

text \<open>\<open>str(v)\<close> of an argument value.\<close>

function str_nat :: "nat \<Rightarrow> string" where
  "str_nat n = (if n < 10 then [char_of (48 + n)] else str_nat (n div 10) @ [char_of (48 + n mod 10)])"
  by pat_completeness auto
termination
  by (relation "measure (\<lambda>n. n)") auto

definition str_int :: "int \<Rightarrow> string" where
  "str_int i = (if i < 0 then CHR ''-'' # str_nat (nat (- i)) else str_nat (nat i))"

fun py_str :: "atom \<Rightarrow> string" where
  "py_str ANone = ''None''"
| "py_str (AInt i) = str_int i"
| "py_str (AStr s) = s"

text \<open>\<open>re.match("^[A-Z]{4}", t)\<close> followed by \<open>.group(0)\<close>: the match object is \<open>None\<close>
  when the text does not begin with four capital letters, and \<open>.group\<close> then raises.\<close>

definition match_root :: "string \<Rightarrow> string option" where
  "match_root t = (if 4 \<le> length t \<and> list_all is_upper_AZ (take 4 t) then Some (take 4 t) else None)"

text \<open>\<open>re.match("^[A-Z]{4}[0-9]{1,2}$", t)\<close>; \<open>$\<close> also matches before a final newline.\<close>

definition valid_ticker_body :: "string \<Rightarrow> bool" where
  "valid_ticker_body t = ((length t = 5 \<or> length t = 6) \<and> list_all is_upper_AZ (take 4 t)
      \<and> list_all is_digit_09 (drop 4 t))"

definition match_valid_ticker :: "string \<Rightarrow> bool" where
  "match_valid_ticker t = (valid_ticker_body t \<or>
      (t \<noteq> [] \<and> last t = CHR 0x0A \<and> valid_ticker_body (butlast t)))"

text \<open>\<open>Series.str.split(' | ')\<close>: a pattern longer than one character is taken as a
  regular expression, and \<open>' | '\<close> is the alternation of a blank with a blank, so the
  text is split at every single blank.\<close>

fun split_blank :: "string \<Rightarrow> string \<Rightarrow> string list" where
  "split_blank acc [] = [rev acc]"
| "split_blank acc (c # cs) = (if c = CHR '' '' then rev acc # split_blank [] cs else split_blank (c # acc) cs)"

definition str_split :: "string \<Rightarrow> string list" where
  "str_split s = split_blank [] s"

subsection \<open>Data frames, storage predicates and the library\<close>

datatype dtype = DString | DInt | DDate | DFloat

datatype cell = CNull | CStr string | CInt int | CDate int | CFloat rat

text \<open>A frame read from the store: its columns with their types, and its rows.
  \<open>pd.DataFrame()\<close> has neither; \<open>df.empty\<close> holds when either axis is empty.\<close>

record frame =
  schema :: "(string \<times> dtype) list"
  recs :: "(string \<Rightarrow> cell) list"

definition empty_DataFrame :: frame where
  "empty_DataFrame = \<lparr> schema = [], recs = [] \<rparr>"

definition df_empty :: "frame \<Rightarrow> bool" where
  "df_empty df = (schema df = [] \<or> recs df = [])"

text \<open>The result of \<open>pd.to_datetime\<close>: one timestamp, or an index of them.\<close>

datatype datetimes = Timestamp int | DatetimeIndex "int option list"

text \<open>A storage-level predicate \<open>(column, operator, value)\<close>.\<close>

datatype fvalue = FInt int | FInts "int list" | FStrs "string list" | FAtoms "atom list" | FTime datetimes

type_synonym pfilter = "string \<times> string \<times> fvalue"

text \<open>
  What the code calls in pandas and the standard library, with whatever behaviour they
  have: \<open>re_compile ignorecase pattern\<close> is the search function of a pattern, or nothing
  when the pattern does not compile; \<open>int_of_str\<close> is \<open>int(text)\<close>, nothing when it raises
  \<open>ValueError\<close>; \<open>read_parquet columns filters\<close> is the scan of the store; \<open>str_upper\<close> and
  \<open>str_lower\<close> are \<open>str.upper\<close> and \<open>str.lower\<close> on a text that has a character beyond
  ASCII (Unicode case mapping).
\<close>

record lib =
  str_upper :: "string \<Rightarrow> string"
  str_lower :: "string \<Rightarrow> string"
  re_compile :: "bool \<Rightarrow> string \<Rightarrow> (string \<Rightarrow> bool) option"
  to_datetime :: "pyval \<Rightarrow> exn + datetimes"
  int_of_str :: "string \<Rightarrow> int option"
  read_parquet :: "atom list \<Rightarrow> pfilter list option \<Rightarrow> exn + frame"

text \<open>\<open>s.upper()\<close> and \<open>s.lower()\<close>.\<close>

definition upper :: "lib \<Rightarrow> string \<Rightarrow> string" where
  "upper L s = (if is_ascii s then ascii_upper s else str_upper L s)"

definition lower :: "lib \<Rightarrow> string \<Rightarrow> string" where
  "lower L s = (if is_ascii s then ascii_lower s else str_lower L s)"

subsection \<open>Engine state\<close>

text \<open>
  Tables of the security master live in a heap of objects, so that a copy and the
  original are told apart; an address that was never allocated holds the empty table.
  The code dictionaries are objects too, in a heap of their own. \<open>scans\<close> records every
  scan of the store that was issued.
\<close>

type_synonym addr = nat

record world =
  heap :: "addr \<Rightarrow> master_entry list"
  next_addr :: addr
  dicts :: "addr \<Rightarrow> (string \<rightharpoonup> int)"
  scans :: "(atom list \<times> pfilter list option) list"

text \<open>The attributes of a \<open>B3Data\<close> instance set by \<open>__init__\<close>: references to the table of
  the security master and to the two code dictionaries. No method assigns to them.\<close>

record engine =
  df_dicionario :: addr
  codbdi_map :: addr
  tpmerc_map :: addr

definition alloc :: "master_entry list \<Rightarrow> world \<Rightarrow> addr \<times> world" where
  "alloc t w = (next_addr w, w\<lparr> heap := (heap w)(next_addr w := t), next_addr := Suc (next_addr w) \<rparr>)"

subsection \<open>find\_assets\<close>

text \<open>\<open>Series.str.contains(..., na=False)\<close> on one value of a text column.\<close>

definition na_false :: "(string \<Rightarrow> bool) \<Rightarrow> string option \<Rightarrow> bool" where
  "na_false m v = (case v of None \<Rightarrow> False | Some s \<Rightarrow> m s)"

text \<open>
  \<open>find_assets\<close>: \<open>query.upper()\<close> needs a text; the ticker mask compiles the query inside
  two word-boundary marks (\<open>word_boundary\<close>, a backslash and \<open>b\<close>) as a regular expression; the result is a new table (\<open>.copy()\<close>).
\<close>

definition word_boundary :: string where
  "word_boundary = [CHR 0x5C, CHR ''b'']"

definition find_assets :: "lib \<Rightarrow> engine \<Rightarrow> pyval \<Rightarrow> world \<Rightarrow> (exn + addr) \<times> world" where
  "find_assets L self query w =
     (case query of
        Atom (AStr q) \<Rightarrow>
          (let query_upper = upper L q in
           case re_compile L False (word_boundary @ query_upper @ word_boundary) of
             None \<Rightarrow> (Inl ReError, w)
           | Some search \<Rightarrow>
               (let combined_mask = (\<lambda>e. na_false search (TICKERS_HISTORICOS e)
                                      \<or> na_false (\<lambda>s. contains s query_upper) (NOMES_HISTORICOS e)
                                      \<or> M_CODISI e = Some query_upper);
                    (a, w') = alloc (filter combined_mask (heap w (df_dicionario self))) w
                in (Inr a, w')))
      | _ \<Rightarrow> (Inl AttributeError, w))"

subsection \<open>\_build\_parquet\_filters\<close>

text \<open>\<open>if not isinstance(value, list): value = [value]\<close>\<close>

fun as_list :: "pyval \<Rightarrow> atom list" where
  "as_list (PList xs) = xs"
| "as_list (Atom a) = [a]"

text \<open>The \<open>asset_class\<close> shorthand; \<open>.lower()\<close> needs a text.\<close>

definition asset_class_filters :: "lib \<Rightarrow> kwargs \<Rightarrow> exn + pfilter list" where
  "asset_class_filters L kw =
     (let asset_class = dict_get kw ''asset_class'' in
      if truthy asset_class then
        (case asset_class of
           Atom (AStr s) \<Rightarrow>
             (let ac_lower = lower L s in
              if ac_lower = ''equity'' then
                Inr [(''CODBDI'', ''in'', FInts [2, 96]), (''TPMERC'', ''in'', FInts [10, 20])]
              else if ac_lower = ''fii'' then Inr [(''CODBDI'', ''=='', FInt 12)]
              else if ac_lower = ''options'' then Inr [(''TPMERC'', ''in'', FInts [70, 80, 12, 13])]
              else Inr [])
         | _ \<Rightarrow> Inl AttributeError)
      else Inr [])"

text \<open>One entry of \<open>filter_map\<close> for a date argument: \<open>pd.to_datetime(value)\<close>.\<close>

definition date_filter :: "lib \<Rightarrow> kwargs \<Rightarrow> string \<Rightarrow> string \<Rightarrow> string \<Rightarrow> exn + pfilter list" where
  "date_filter L kw arg col op =
     (case dict_get kw arg of
        Atom ANone \<Rightarrow> Inr []
      | value \<Rightarrow> (case to_datetime L value of Inl e \<Rightarrow> Inl e | Inr d \<Rightarrow> Inr [(col, op, FTime d)]))"

text \<open>The entries for \<open>tickers\<close> (each element through \<open>str(v).upper()\<close>) and \<open>codisi\<close>.\<close>

definition tickers_filter :: "lib \<Rightarrow> kwargs \<Rightarrow> pfilter list" where
  "tickers_filter L kw =
     (case dict_get kw ''tickers'' of
        Atom ANone \<Rightarrow> []
      | value \<Rightarrow> [(''CODNEG'', ''in'', FStrs (map (\<lambda>v. upper L (py_str v)) (as_list value)))])"

definition codisi_filter :: "kwargs \<Rightarrow> pfilter list" where
  "codisi_filter kw =
     (case dict_get kw ''codisi'' of
        Atom ANone \<Rightarrow> []
      | value \<Rightarrow> [(''CODISI'', ''in'', FAtoms (as_list value))])"

text \<open>\<open>int(code_map.get(str(item).upper(), item))\<close>\<close>

definition code_of :: "lib \<Rightarrow> (string \<rightharpoonup> int) \<Rightarrow> atom \<Rightarrow> exn + int" where
  "code_of L code_map item =
     (case code_map (upper L (py_str item)) of
        Some c \<Rightarrow> Inr c
      | None \<Rightarrow>
          (case item of
             AInt i \<Rightarrow> Inr i
           | AStr s \<Rightarrow> (case int_of_str L s of None \<Rightarrow> Inl ValueError | Some i \<Rightarrow> Inr i)
           | ANone \<Rightarrow> Inl TypeError))"

text \<open>A list comprehension whose element expression may raise: the first failure wins.\<close>

fun map_exn :: "('a \<Rightarrow> exn + 'b) \<Rightarrow> 'a list \<Rightarrow> exn + 'b list" where
  "map_exn f [] = Inr []"
| "map_exn f (x # xs) =
     (case f x of
        Inl e \<Rightarrow> Inl e
      | Inr y \<Rightarrow> (case map_exn f xs of Inl e \<Rightarrow> Inl e | Inr ys \<Rightarrow> Inr (y # ys)))"

definition code_filter :: "lib \<Rightarrow> kwargs \<Rightarrow> string \<Rightarrow> (string \<rightharpoonup> int) \<Rightarrow> exn + pfilter list" where
  "code_filter L kw code_arg code_map =
     (case dict_get kw code_arg of
        Atom ANone \<Rightarrow> Inr []
      | value \<Rightarrow>
          (case map_exn (code_of L code_map) (as_list value) of
             Inl e \<Rightarrow> Inl e
           | Inr codes_to_filter \<Rightarrow> Inr [(upper L code_arg, ''in'', FInts codes_to_filter)]))"

text \<open>Running the filter-building steps in the order of the source, stopping at the
  first exception.\<close>

fun extend_all :: "(exn + pfilter list) list \<Rightarrow> exn + pfilter list" where
  "extend_all [] = Inr []"
| "extend_all (s # ss) =
     (case s of
        Inl e \<Rightarrow> Inl e
      | Inr fs \<Rightarrow> (case extend_all ss of Inl e \<Rightarrow> Inl e | Inr gs \<Rightarrow> Inr (fs @ gs)))"

definition build_parquet_filters :: "lib \<Rightarrow> engine \<Rightarrow> world \<Rightarrow> kwargs \<Rightarrow> exn + pfilter list" where
  "build_parquet_filters L self w kw =
     extend_all
       [asset_class_filters L kw,
        date_filter L kw ''start_date'' ''DATA_PREGAO'' ''>='',
        date_filter L kw ''end_date'' ''DATA_PREGAO'' ''<='',
        date_filter L kw ''vencimento_min'' ''DATVEN'' ''>='',
        date_filter L kw ''vencimento_max'' ''DATVEN'' ''<='',
        Inr (tickers_filter L kw),
        Inr (codisi_filter kw),
        code_filter L kw ''codbdi'' (dicts w (codbdi_map self)),
        code_filter L kw ''tpmerc'' (dicts w (tpmerc_map self))]"

subsection \<open>get\_quotes\<close>

text \<open>How a stage of \<open>get_quotes\<close> ends: with an exception, with an early \<open>return\<close>, or by
  going on.\<close>

datatype 'a stage = Raise exn | Return frame | Continue 'a

text \<open>The tickers of the matched entries:
  \<open>asset_info['TICKERS_HISTORICOS'].str.split(' | ').explode().unique()\<close>; a missing trail
  stays a missing value.\<close>

definition all_tickers_raw :: "master_entry list \<Rightarrow> string option list" where
  "all_tickers_raw asset_info =
     unique (concat (map (\<lambda>e. case TICKERS_HISTORICOS e of
                               None \<Rightarrow> [None]
                             | Some s \<Rightarrow> map Some (str_split s)) asset_info))"

text \<open>\<open>[t for t in all_tickers_raw if t and re.match(..., t)]\<close>: a missing value is a
  \<open>NaN\<close>, which is true in a condition and on which \<open>re.match\<close> raises \<open>TypeError\<close>.\<close>

definition valid_tickers :: "string option list \<Rightarrow> exn + string list" where
  "valid_tickers raw =
     (if None \<in> set raw then Inl TypeError
      else Inr (filter (\<lambda>t. t \<noteq> [] \<and> match_valid_ticker t)
                  (concat (map (\<lambda>t. case t of None \<Rightarrow> [] | Some s \<Rightarrow> [s]) raw))))"

definition equity_suffix :: "string \<Rightarrow> bool" where
  "equity_suffix t = (endswith t ''3'' \<or> endswith t ''4'' \<or> endswith t ''5'' \<or> endswith t ''6''
      \<or> endswith t ''11'')"

text \<open>The exploratory stage (the \<open>if\<close>/\<open>elif\<close> on \<open>entity\<close>): for options the root of the
  first match's latest ticker is kept and \<open>entity\<close> is deleted from the parameters;
  otherwise the entity's tickers become the \<open>tickers\<close> parameter.\<close>

definition entity_stage :: "lib \<Rightarrow> engine \<Rightarrow> kwargs \<Rightarrow> world \<Rightarrow> (kwargs \<times> string option) stage \<times> world" where
  "entity_stage L self params w =
     (let entity_query = dict_get params ''entity'' in
      if truthy entity_query \<and> dict_get params ''asset_class'' = Atom (AStr ''options'') then
        (case find_assets L self entity_query w of
           (Inl e, w') \<Rightarrow> (Raise e, w')
         | (Inr a, w') \<Rightarrow>
             (case heap w' a of
                [] \<Rightarrow> (Return empty_DataFrame, w')
              | first # _ \<Rightarrow>
                  (case ULTIMO_TICKER first of
                     None \<Rightarrow> (Raise TypeError, w')
                   | Some main_ticker \<Rightarrow>
                       (case match_root main_ticker of
                          None \<Rightarrow> (Raise AttributeError, w')
                        | Some ticker_root_for_options \<Rightarrow>
                            (Continue (params(''entity'' := None), Some ticker_root_for_options), w')))))
      else if truthy entity_query \<and> params ''tickers'' = None then
        (case find_assets L self entity_query w of
           (Inl e, w') \<Rightarrow> (Raise e, w')
         | (Inr a, w') \<Rightarrow>
             (case heap w' a of
                [] \<Rightarrow> (Return empty_DataFrame, w')
              | asset_info \<Rightarrow>
                  (case valid_tickers (all_tickers_raw asset_info) of
                     Inl e \<Rightarrow> (Raise e, w')
                   | Inr vt \<Rightarrow>
                       (if dict_get params ''asset_class'' = Atom (AStr ''equity'') then
                          (Continue (params(''tickers'' \<mapsto> PList (map AStr (filter equity_suffix vt))), None), w')
                        else (Continue (params(''tickers'' \<mapsto> PList (map AStr vt)), None), w')))))
      else (Continue (params, None), w))"

definition valid_starters :: "string list" where
  "valid_starters = [''tickers'', ''entity'', ''codisi'', ''codbdi'', ''tpmerc'', ''asset_class'', ''ticker_root'']"

text \<open>The column projection: the key columns joined with the default or the requested
  columns (\<open>set(user_columns)\<close> iterates a text by characters and raises on an integer),
  then \<open>ESPECI\<close> when a post-filter asks for it. The order in which Python lists a set is
  not fixed; here it is the order of first mention.\<close>

definition key_columns :: "atom list" where
  "key_columns = [AStr ''DATA_PREGAO'', AStr ''CODNEG'', AStr ''CODISI'']"

definition default_columns :: "atom list" where
  "default_columns = [AStr ''PREABE'', AStr ''PREMAX'', AStr ''PREMIN'', AStr ''PREULT'',
     AStr ''VOLTOT'', AStr ''QUATOT'']"

definition columns_to_load :: "kwargs \<Rightarrow> exn + atom list" where
  "columns_to_load params =
     (let base =
        (case dict_get params ''columns'' of
           Atom ANone \<Rightarrow> Inr (remdups (key_columns @ default_columns))
         | Atom (AInt _) \<Rightarrow> Inl TypeError
         | Atom (AStr s) \<Rightarrow> Inr (remdups (key_columns @ map (\<lambda>c. AStr [c]) s))
         | PList xs \<Rightarrow> Inr (remdups (key_columns @ xs)))
      in case base of
           Inl e \<Rightarrow> Inl e
         | Inr cols \<Rightarrow>
             if truthy (dict_get params ''especificacao'')
                \<or> dict_get params ''asset_class'' = Atom (AStr ''bdr'')
                \<or> truthy (dict_get params ''ticker_root'')
             then (if AStr ''ESPECI'' \<notin> set cols then Inr (cols @ [AStr ''ESPECI'']) else Inr cols)
             else Inr cols)"

text \<open>\<open>df[col].str\<close>: \<open>KeyError\<close> without the column, \<open>AttributeError\<close> when it does not hold
  texts.\<close>

definition str_accessor :: "frame \<Rightarrow> string \<Rightarrow> exn + unit" where
  "str_accessor df col =
     (case map_of (schema df) col of
        None \<Rightarrow> Inl KeyError
      | Some DString \<Rightarrow> Inr ()
      | Some _ \<Rightarrow> Inl AttributeError)"

text \<open>\<open>df[df[col].str.<test>(..., na=False)]\<close>: the rows whose value is a text passing the
  test.\<close>

fun cell_test :: "(string \<Rightarrow> bool) \<Rightarrow> cell \<Rightarrow> bool" where
  "cell_test m (CStr s) = m s"
| "cell_test m _ = False"

definition select_rows :: "frame \<Rightarrow> string \<Rightarrow> (string \<Rightarrow> bool) \<Rightarrow> frame" where
  "select_rows df col m = df\<lparr> recs := filter (\<lambda>r. cell_test m (r col)) (recs df) \<rparr>"

text \<open>The ticker-root post-filter. \<open>params.get('ticker_root') or ticker_root_for_options\<close>
  is the parameter when it is true, else the root found for the entity.\<close>

definition ticker_root_of :: "kwargs \<Rightarrow> string option \<Rightarrow> pyval" where
  "ticker_root_of params ticker_root_for_options =
     (if truthy (dict_get params ''ticker_root'') then dict_get params ''ticker_root''
      else (case ticker_root_for_options of None \<Rightarrow> Atom ANone | Some r \<Rightarrow> Atom (AStr r)))"

definition filter_ticker_root :: "lib \<Rightarrow> kwargs \<Rightarrow> string option \<Rightarrow> frame \<Rightarrow> exn + frame" where
  "filter_ticker_root L params ticker_root_for_options df =
     (let ticker_root = ticker_root_of params ticker_root_for_options in
      if truthy ticker_root then
        (case str_accessor df ''CODNEG'' of
           Inl e \<Rightarrow> Inl e
         | Inr _ \<Rightarrow>
             (case ticker_root of
                Atom (AStr r) \<Rightarrow> Inr (select_rows df ''CODNEG'' (\<lambda>s. startswith s (upper L r)))
              | _ \<Rightarrow> Inl AttributeError))
      else Inr df)"

text \<open>The \<open>bdr\<close> post-filter: \<open>str.contains('DR', na=False, case=False)\<close>, the pattern a
  regular expression matched without regard to case.\<close>

definition filter_bdr :: "lib \<Rightarrow> kwargs \<Rightarrow> frame \<Rightarrow> exn + frame" where
  "filter_bdr L params df =
     (let asset_class_param = dict_get params ''asset_class'' in
      if truthy asset_class_param then
        (case asset_class_param of
           Atom (AStr s) \<Rightarrow>
             (if lower L s = ''bdr'' then
                (case str_accessor df ''ESPECI'' of
                   Inl e \<Rightarrow> Inl e
                 | Inr _ \<Rightarrow>
                     (case re_compile L True ''DR'' of
                        None \<Rightarrow> Inl ReError
                      | Some search \<Rightarrow> Inr (select_rows df ''ESPECI'' search)))
              else Inr df)
         | _ \<Rightarrow> Inl AttributeError)
      else Inr df)"

text \<open>The \<open>especificacao\<close> post-filter: \<open>'|'.join(espec_value)\<close> needs texts, and the joined
  pattern is compiled as a case-insensitive regular expression.\<close>

fun atom_text :: "atom \<Rightarrow> exn + string" where
  "atom_text (AStr s) = Inr s"
| "atom_text _ = Inl TypeError"

definition filter_especificacao :: "lib \<Rightarrow> kwargs \<Rightarrow> frame \<Rightarrow> exn + frame" where
  "filter_especificacao L params df =
     (case dict_get params ''especificacao'' of
        Atom ANone \<Rightarrow> Inr df
      | espec_value \<Rightarrow>
          (case map_exn atom_text (as_list espec_value) of
             Inl e \<Rightarrow> Inl e
           | Inr texts \<Rightarrow>
               (let pattern = join ''|'' texts in
                case str_accessor df ''ESPECI'' of
                  Inl e \<Rightarrow> Inl e
                | Inr _ \<Rightarrow>
                    (case re_compile L True pattern of
                       None \<Rightarrow> Inl ReError
                     | Some search \<Rightarrow> Inr (select_rows df ''ESPECI'' search)))))"

text \<open>The post-filter layer, skipped for an empty scan result.\<close>

definition post_filter :: "lib \<Rightarrow> kwargs \<Rightarrow> string option \<Rightarrow> frame \<Rightarrow> exn + frame" where
  "post_filter L params ticker_root_for_options df =
     (if df_empty df then Inr df
      else
        (case filter_ticker_root L params ticker_root_for_options df of
           Inl e \<Rightarrow> Inl e
         | Inr df1 \<Rightarrow>
             (case filter_bdr L params df1 of
                Inl e \<Rightarrow> Inl e
              | Inr df2 \<Rightarrow> filter_especificacao L params df2)))"

text \<open>\<open>df.sort_values(by=['CODNEG', 'DATA_PREGAO']).reset_index(drop=True)\<close>: ascending,
  missing values last in each column.\<close>

fun cell_key :: "cell \<Rightarrow> nat \<times> string \<times> rat" where
  "cell_key CNull = (1, [], 0)"
| "cell_key (CStr s) = (0, s, 0)"
| "cell_key (CInt i) = (0, [], of_int i)"
| "cell_key (CDate d) = (0, [], of_int d)"
| "cell_key (CFloat q) = (0, [], q)"

definition sort_values :: "frame \<Rightarrow> exn + frame" where
  "sort_values df =
     (if map_of (schema df) ''CODNEG'' = None \<or> map_of (schema df) ''DATA_PREGAO'' = None
      then Inl KeyError
      else Inr (df\<lparr> recs := sort_key (\<lambda>r. (cell_key (r ''CODNEG''), cell_key (r ''DATA_PREGAO''))) (recs df) \<rparr>))"

text \<open>The body of the \<open>try\<close> block: the scan is issued (and logged), then the post-filters
  and the sort; any exception leaves the body at once.\<close>

definition try_body :: "lib \<Rightarrow> kwargs \<Rightarrow> string option \<Rightarrow> atom list \<Rightarrow> pfilter list \<Rightarrow> world \<Rightarrow> (exn + frame) \<times> world" where
  "try_body L params ticker_root_for_options cols filters w =
     (let fopt = (if filters = [] then None else Some filters);
          w' = w\<lparr> scans := scans w @ [(cols, fopt)] \<rparr>
      in (case read_parquet L cols fopt of
            Inl e \<Rightarrow> (Inl e, w')
          | Inr df0 \<Rightarrow>
              (case post_filter L params ticker_root_for_options df0 of
                 Inl e \<Rightarrow> (Inl e, w')
               | Inr df \<Rightarrow> (if df_empty df then (Inr df, w') else (sort_values df, w')))))"

text \<open>\<open>try: ... except Exception: return pd.DataFrame()\<close>\<close>

definition scan_stage :: "lib \<Rightarrow> kwargs \<Rightarrow> string option \<Rightarrow> atom list \<Rightarrow> pfilter list \<Rightarrow> world \<Rightarrow> (exn + frame) \<times> world" where
  "scan_stage L params ticker_root_for_options cols filters w =
     (case try_body L params ticker_root_for_options cols filters w of
        (Inl e, w') \<Rightarrow> (Inr empty_DataFrame, w')
      | (Inr df, w') \<Rightarrow> (Inr df, w'))"

text \<open>\<open>get_quotes(**kwargs)\<close>: the exploratory stage, the validation of the starter
  criteria (by key), the storage predicates, the projection, and the guarded scan.\<close>

definition get_quotes :: "lib \<Rightarrow> engine \<Rightarrow> kwargs \<Rightarrow> world \<Rightarrow> (exn + frame) \<times> world" where
  "get_quotes L self kwargs w =
     (case entity_stage L self kwargs w of
        (Raise e, w1) \<Rightarrow> (Inl e, w1)
      | (Return df, w1) \<Rightarrow> (Inr df, w1)
      | (Continue (params, ticker_root_for_options), w1) \<Rightarrow>
          (if \<not> list_ex (\<lambda>k. params k \<noteq> None) valid_starters then (Inl ValueError, w1)
           else
             (case build_parquet_filters L self w1 params of
                Inl e \<Rightarrow> (Inl e, w1)
              | Inr filters \<Rightarrow>
                  (case columns_to_load params of
                     Inl e \<Rightarrow> (Inl e, w1)
                   | Inr cols \<Rightarrow> scan_stage L params ticker_root_for_options cols filters w1))))"

subsection \<open>get\_asset\_info\<close>

text \<open>\<open>results.iloc[0]\<close> of \<open>find_assets\<close>, or \<open>None\<close>.\<close>

definition get_asset_info :: "lib \<Rightarrow> engine \<Rightarrow> pyval \<Rightarrow> world \<Rightarrow> (exn + master_entry option) \<times> world" where
  "get_asset_info L self ticker w =
     (case find_assets L self ticker w of
        (Inl e, w') \<Rightarrow> (Inl e, w')
      | (Inr a, w') \<Rightarrow> (case heap w' a of [] \<Rightarrow> (Inr None, w') | first # _ \<Rightarrow> (Inr (Some first), w')))"

subsection \<open>list\_tickers\<close>

text \<open>The pattern of \<open>list_tickers\<close>, \<open>ACOES\<close> with a tilde on the \<open>O\<close> (code point 213).\<close>

definition acoes_pattern :: string where
  "acoes_pattern = [CHR ''A'', CHR ''C'', CHR 0xD5, CHR ''E'', CHR ''S'']"

text \<open>\<open>sorted(tickers)\<close> on texts and \<open>None\<close>: any comparison with \<open>None\<close> raises
  \<open>TypeError\<close>, and a list of two or more elements is compared.\<close>

definition sorted_tickers :: "string option list \<Rightarrow> exn + string option list" where
  "sorted_tickers tickers =
     (if None \<in> set tickers then (if 2 \<le> length tickers then Inl TypeError else Inr tickers)
      else Inr (map Some (sort (concat (map (\<lambda>t. case t of None \<Rightarrow> [] | Some s \<Rightarrow> [s]) tickers)))))"

text \<open>\<open>list_tickers\<close>: the distinct latest tickers of the master, for \<open>'acoes'\<close> of the
  entries whose specification matches the pattern, sorted. It allocates nothing.\<close>

definition list_tickers :: "lib \<Rightarrow> engine \<Rightarrow> pyval \<Rightarrow> world \<Rightarrow> (exn + string option list) \<times> world" where
  "list_tickers L self asset_type w =
     (if asset_type = Atom (AStr ''acoes'') then
        (case re_compile L False acoes_pattern of
           None \<Rightarrow> (Inl ReError, w)
         | Some search \<Rightarrow>
             (sorted_tickers (unique (map ULTIMO_TICKER
                (filter (\<lambda>e. na_false search (ULTIMA_ESPECIFICACAO e)) (heap w (df_dicionario self))))), w))
      else (sorted_tickers (unique (map ULTIMO_TICKER (heap w (df_dicionario self)))), w))"


section \<open>Record decoder and batch writer (raw\_data\_processor.py)\<close>

subsection \<open>Layout constants\<close>

definition COTAHIST_LAYOUT :: "(string \<times> nat \<times> nat) list" where
  "COTAHIST_LAYOUT =
     [(''TIPREG'', 1, 2), (''DATA_PREGAO'', 3, 10), (''CODBDI'', 11, 12), (''CODNEG'', 13, 24),
      (''TPMERC'', 25, 27), (''NOMRES'', 28, 39), (''ESPECI'', 40, 49), (''PRAZOT'', 50, 52),
      (''MODREF'', 53, 56), (''PREABE'', 57, 69), (''PREMAX'', 70, 82), (''PREMIN'', 83, 95),
      (''PREMED'', 96, 108), (''PREULT'', 109, 121), (''PREOFC'', 122, 134), (''PREOFV'', 135, 147),
      (''TOTNEG'', 148, 152), (''QUATOT'', 153, 170), (''VOLTOT'', 171, 188), (''PREEXE'', 189, 201),
      (''INDOPC'', 202, 202), (''DATVEN'', 203, 210), (''FATCOT'', 211, 217), (''PTOEXE'', 218, 230),
      (''CODISI'', 231, 242), (''DISMES'', 243, 245)]"

text \<open>\<open>COLSPECS\<close>: 1-based inclusive positions turned into 0-based half-open slices.\<close>

definition COLSPECS :: "(nat \<times> nat) list" where
  "COLSPECS = map (\<lambda>(k, v0, v1). (v0 - 1, v1)) COTAHIST_LAYOUT"

definition NAMES :: "string list" where
  "NAMES = map fst COTAHIST_LAYOUT"

definition DATE_COLS :: "string list" where
  "DATE_COLS = [''DATA_PREGAO'', ''DATVEN'']"

definition PRICE_COLS :: "string list" where
  "PRICE_COLS = [''PREABE'', ''PREMAX'', ''PREMIN'', ''PREMED'', ''PREULT'', ''PREOFC'', ''PREOFV'',
     ''PREEXE'', ''VOLTOT'']"

definition INT_COLS :: "string list" where
  "INT_COLS = [''TIPREG'', ''CODBDI'', ''TPMERC'', ''TOTNEG'', ''QUATOT'', ''FATCOT'', ''INDOPC'',
     ''DISMES'', ''PRAZOT'', ''PTOEXE'']"

definition BATCH_SIZE :: nat where
  "BATCH_SIZE = 500000"

subsection \<open>Decoded values and the library\<close>

text \<open>A number as \<open>pd.to_numeric\<close> reads it.\<close>

datatype number = Finite rat | PosInf | NegInf

text \<open>A value of a decoded record: missing (\<open>NaN\<close>, \<open>NaT\<close>, \<open><NA>\<close>), a text, a date, a
  price (a \<open>float64\<close>), or a nullable integer (\<open>Int64\<close>).\<close>

datatype dcell = Missing | Text string | Day int | Price number | Count int

type_synonym drow = "(string \<times> dcell) list"

datatype arrow_type = ANull | AString | AInt64 | ADouble | ATimestamp

type_synonym arrow_schema = "(string \<times> arrow_type) list"

record table =
  tschema :: arrow_schema
  trows :: "drow list"

text \<open>
  What the decoder calls in pandas and pyarrow, with whatever behaviour they have:
  \<open>na_text\<close> tells the texts \<open>read_fwf\<close> takes for a missing value besides the empty one
  (\<open>NA\<close>, \<open>NULL\<close>, \<open>nan\<close>, ...); \<open>to_numeric\<close> and \<open>to_datetime_ymd\<close> read the text of one
  field (nothing when it is not a number, or not a date in the format \<open>%Y%m%d\<close>; under
  \<open>errors='coerce'\<close> neither raises); \<open>fdiv100\<close> is the \<open>float64\<close> division by 100;
  \<open>infer_types\<close> gives the column types \<open>read_fwf\<close> and \<open>pa.Table.from_pandas\<close> settle on
  for a batch; \<open>cast_rows\<close> converts the values of a table from one schema to another, or
  fails; \<open>lower_beyond_ascii\<close> is \<open>str.lower\<close> on a file name that has a character beyond
  ASCII.
\<close>

record pdlib =
  lower_beyond_ascii :: "string \<Rightarrow> string"
  na_text :: "string \<Rightarrow> bool"
  to_numeric :: "string \<Rightarrow> number option"
  to_datetime_ymd :: "string \<Rightarrow> int option"
  fdiv100 :: "number \<Rightarrow> number"
  infer_types :: "drow list \<Rightarrow> arrow_type list"
  cast_rows :: "arrow_schema \<Rightarrow> arrow_schema \<Rightarrow> drow list \<Rightarrow> drow list option"

subsection \<open>Decoding a batch of lines\<close>

text \<open>\<open>read_fwf\<close> strips the blank, the tab and the line ends from a field.\<close>

definition is_fwf_delimiter :: "char \<Rightarrow> bool" where
  "is_fwf_delimiter c = (c = CHR '' '' \<or> c = CHR 0x09 \<or> c = CHR 0x0A \<or> c = CHR 0x0D)"

text \<open>\<open>str.strip()\<close> strips every white-space character (those below code point 256).\<close>

definition is_space :: "char \<Rightarrow> bool" where
  "is_space c = (c = CHR '' '' \<or> c = CHR 0x09 \<or> c = CHR 0x0A \<or> c = CHR 0x0B \<or> c = CHR 0x0C
      \<or> c = CHR 0x0D \<or> c = CHR 0x1C \<or> c = CHR 0x1D \<or> c = CHR 0x1E \<or> c = CHR 0x1F
      \<or> c = CHR 0x85 \<or> c = CHR 0xA0)"

definition strip_chars :: "(char \<Rightarrow> bool) \<Rightarrow> string \<Rightarrow> string" where
  "strip_chars p s = rev (dropWhile p (rev (dropWhile p s)))"

definition strip :: "string \<Rightarrow> string" where
  "strip s = strip_chars is_space s"

text \<open>One field of a line as \<open>read_fwf\<close> cuts it: the slice of its column, stripped of the
  delimiters.\<close>

definition field_text :: "string \<Rightarrow> nat \<times> nat \<Rightarrow> string" where
  "field_text line spec =
     (case spec of (a, b) \<Rightarrow> strip_chars is_fwf_delimiter (take (b - a) (drop a line)))"

text \<open>\<open>.astype('Int64')\<close>: a number that is not whole (or not finite) cannot be cast, and
  pandas raises.\<close>

fun astype_Int64 :: "number \<Rightarrow> exn + int" where
  "astype_Int64 (Finite q) = (if q = of_int \<lfloor>q\<rfloor> then Inr \<lfloor>q\<rfloor> else Inl TypeError)"
| "astype_Int64 PosInf = Inl TypeError"
| "astype_Int64 NegInf = Inl TypeError"

text \<open>
  The conversion of one field by the kind of its column. An empty field, or one holding
  a text for a missing value, is missing already after \<open>read_fwf\<close>. Otherwise the text is
  stripped (\<open>.str.strip()\<close>, which may leave it empty); the dates and the prices are
  coerced, the integer columns are coerced and then cast; any other column keeps its
  text. (A text column all of whose values in a batch read as numbers is held as numbers
  by \<open>read_fwf\<close>; here it keeps the texts.)
\<close>

definition decode_cell :: "pdlib \<Rightarrow> string \<Rightarrow> string \<Rightarrow> exn + dcell" where
  "decode_cell P col raw =
     (let txt = strip raw in
      if raw = [] \<or> na_text P raw then Inr Missing
      else if col \<in> set DATE_COLS then
        Inr (case to_datetime_ymd P txt of None \<Rightarrow> Missing | Some d \<Rightarrow> Day d)
      else if col \<in> set PRICE_COLS then
        Inr (case to_numeric P txt of None \<Rightarrow> Missing | Some x \<Rightarrow> Price (fdiv100 P x))
      else if col \<in> set INT_COLS then
        (case to_numeric P txt of
           None \<Rightarrow> Inr Missing
         | Some x \<Rightarrow> (case astype_Int64 x of Inl e \<Rightarrow> Inl e | Inr i \<Rightarrow> Inr (Count i)))
      else Inr (Text txt))"

definition decode_line :: "pdlib \<Rightarrow> string \<Rightarrow> exn + drow" where
  "decode_line P line =
     map_exn (\<lambda>(col, spec). case decode_cell P col (field_text line spec) of
                               Inl e \<Rightarrow> Inl e
                             | Inr v \<Rightarrow> Inr (col, v))
       (zip NAMES COLSPECS)"

text \<open>\<open>read_fwf\<close> leaves out a line all of whose fields are blank (\<open>e.strip()\<close> is empty for
  each field \<open>e\<close>).\<close>

definition all_blank :: "string \<Rightarrow> bool" where
  "all_blank line = list_all (\<lambda>spec. strip (field_text line spec) = []) COLSPECS"

text \<open>The frame of a batch after the clean-up loops; the conversions work on whole
  columns, so one value that cannot be cast fails the whole batch.\<close>

definition decode_batch :: "pdlib \<Rightarrow> string list \<Rightarrow> exn + drow list" where
  "decode_batch P batch_lines = map_exn (decode_line P) (filter (\<lambda>l. \<not> all_blank l) batch_lines)"

subsection \<open>Writing the batches\<close>

text \<open>\<open>pa.Table.from_pandas(df_batch, preserve_index=False)\<close>: the columns are always
  \<open>NAMES\<close>, with the types inferred for this batch.\<close>

definition from_pandas :: "pdlib \<Rightarrow> drow list \<Rightarrow> table" where
  "from_pandas P df_batch = \<lparr> tschema = zip NAMES (infer_types P df_batch), trows = df_batch \<rparr>"

text \<open>\<open>table.cast(target)\<close>: the field names must agree; the values are converted, which
  may fail; the result has the target schema.\<close>

definition table_cast :: "pdlib \<Rightarrow> arrow_schema \<Rightarrow> table \<Rightarrow> exn + table" where
  "table_cast P target t =
     (if map fst target \<noteq> map fst (tschema t) then Inl ValueError
      else (case cast_rows P (tschema t) target (trows t) of
              None \<Rightarrow> Inl TypeError
            | Some rows \<Rightarrow> Inr \<lparr> tschema = target, trows = rows \<rparr>))"

text \<open>The two variables of the build: \<open>final_schema\<close> (set together with \<open>writer\<close>, so
  \<open>writer is None\<close> is \<open>final_schema = None\<close>) and the tables written to the store so far.\<close>

record build_state =
  final_schema :: "arrow_schema option"
  written :: "table list"

text \<open>\<open>writer.write_table(table)\<close>: a writer refuses a table of another schema.\<close>

definition write_table :: "arrow_schema \<Rightarrow> table \<Rightarrow> build_state \<Rightarrow> exn option \<times> build_state" where
  "write_table sch t st =
     (if tschema t \<noteq> sch then (Some ValueError, st)
      else (None, st\<lparr> written := written st @ [t] \<rparr>))"

text \<open>
  The body of the inner loop for one batch. It ends with an exception or normally, and
  in both cases with the state it has reached: the schema captured for the first table
  stays when a later statement raises. Opening the writer is taken to succeed.
\<close>

definition process_batch :: "pdlib \<Rightarrow> string list \<Rightarrow> build_state \<Rightarrow> exn option \<times> build_state" where
  "process_batch P batch_lines st =
     (case decode_batch P batch_lines of
        Inl e \<Rightarrow> (Some e, st)
      | Inr df_batch \<Rightarrow>
          if df_batch = [] then (None, st)
          else
            (let table0 = from_pandas P df_batch;
                 sch = (case final_schema st of None \<Rightarrow> tschema table0 | Some s \<Rightarrow> s);
                 st1 = st\<lparr> final_schema := Some sch \<rparr>
             in case table_cast P sch table0 of
                  Inl e \<Rightarrow> (Some e, st1)
                | Inr t \<Rightarrow> write_table sch t st1))"

text \<open>\<open>for i in range(0, len(content_lines), BATCH_SIZE)\<close>: the slices of at most
  \<open>BATCH_SIZE\<close> lines.\<close>

function chunks :: "nat \<Rightarrow> 'a list \<Rightarrow> 'a list list" where
  "chunks n xs = (if n = 0 \<or> xs = [] then [] else take n xs # chunks n (drop n xs))"
  by pat_completeness auto
termination
  by (relation "measure (\<lambda>(n, xs). length xs)") auto

fun process_batches :: "pdlib \<Rightarrow> string list list \<Rightarrow> build_state \<Rightarrow> exn option \<times> build_state" where
  "process_batches P [] st = (None, st)"
| "process_batches P (b # bs) st =
     (case process_batch P b st of
        (Some e, st') \<Rightarrow> (Some e, st')
      | (None, st') \<Rightarrow> process_batches P bs st')"

text \<open>
  One file inside \<open>try\<close>/\<open>except\<close>: a file that cannot be read is skipped; the first and
  the last line are dropped (\<open>lines[1:-1]\<close>); an exception in a batch ends the file, and
  what was written before stays.
\<close>

definition process_file :: "pdlib \<Rightarrow> exn + string list \<Rightarrow> build_state \<Rightarrow> build_state" where
  "process_file P file st =
     (case file of
        Inl e \<Rightarrow> st
      | Inr lines \<Rightarrow>
          (let content_lines = butlast (tl lines) in
           if content_lines = [] then st
           else snd (process_batches P (chunks BATCH_SIZE content_lines) st)))"

fun process_files :: "pdlib \<Rightarrow> (exn + string list) list \<Rightarrow> build_state \<Rightarrow> build_state" where
  "process_files P [] st = st"
| "process_files P (f # fs) st = process_files P fs (process_file P f st)"

text \<open>\<open>process_text_to_parquet\<close> over a directory given as file names with their
  contents: the \<open>.txt\<close> files in sorted order, started with no writer and no schema.\<close>

definition file_lower :: "pdlib \<Rightarrow> string \<Rightarrow> string" where
  "file_lower P f = (if is_ascii f then ascii_lower f else lower_beyond_ascii P f)"

definition files_to_process :: "pdlib \<Rightarrow> (string \<times> (exn + string list)) list \<Rightarrow> (string \<times> (exn + string list)) list" where
  "files_to_process P dir = sort_key fst (filter (\<lambda>(f, c). endswith (file_lower P f) ''.txt'') dir)"

definition process_text_to_parquet :: "pdlib \<Rightarrow> (string \<times> (exn + string list)) list \<Rightarrow> build_state" where
  "process_text_to_parquet P dir =
     process_files P (map snd (files_to_process P dir)) \<lparr> final_schema = None, written = [] \<rparr>"


text \<open>A table that is the result of casting the table of some batch to its schema.\<close>

abbreviation cast_result :: "pdlib \<Rightarrow> table \<Rightarrow> bool" where
  "cast_result P u \<equiv> \<exists>df. df \<noteq> [] \<and> table_cast P (tschema u) (from_pandas P df) = Inr u"


section \<open>Concrete stores, tables and queries\<close>

text \<open>A stand-in for the regular-expression library that knows literal patterns only:
  a pattern between two word-boundary marks is searched as a blank-separated token, any
  other pattern as a substring (both on capitalised text when case is ignored).\<close>

definition toy_compile :: "bool \<Rightarrow> string \<Rightarrow> (string \<Rightarrow> bool) option" where
  "toy_compile ignorecase p =
     (let fold_case = (\<lambda>s. if ignorecase then ascii_upper s else s) in
      if 4 \<le> length p \<and> take 2 p = word_boundary \<and> drop (length p - 2) p = word_boundary
      then Some (\<lambda>s. fold_case (take (length p - 4) (drop 2 p)) \<in> set (str_split (fold_case s)))
      else Some (\<lambda>s. contains (fold_case s) (fold_case p)))"

definition row_of :: "(string \<times> cell) list \<Rightarrow> string \<Rightarrow> cell" where
  "row_of kv c = (case map_of kv c of None \<Rightarrow> CNull | Some v \<Rightarrow> v)"

text \<open>A scan result with two option series on \<open>VALE\<close> and one on \<open>PETR\<close>.\<close>

definition frame0 :: frame where
  "frame0 =
     \<lparr> schema = [(''DATA_PREGAO'', DDate), (''CODNEG'', DString), (''CODISI'', DString)],
       recs =
         [row_of [(''DATA_PREGAO'', CDate 19361), (''CODNEG'', CStr ''VALEA123''), (''CODISI'', CStr ''BRVALEACNOR0'')],
          row_of [(''DATA_PREGAO'', CDate 19360), (''CODNEG'', CStr ''PETRH20''), (''CODISI'', CStr ''BRPETRACNPR6'')],
          row_of [(''DATA_PREGAO'', CDate 19360), (''CODNEG'', CStr ''VALEA123''), (''CODISI'', CStr ''BRVALEACNOR0'')]] \<rparr>"

definition lib0 :: lib where
  "lib0 = \<lparr> str_upper = ascii_upper, str_lower = ascii_lower,
            re_compile = toy_compile, to_datetime = (\<lambda>v. Inl ValueError),
            int_of_str = (\<lambda>s. None), read_parquet = (\<lambda>cols filters. Inr frame0) \<rparr>"

text \<open>The same library over a store that cannot be read.\<close>

definition lib_unreadable :: lib where
  "lib_unreadable = lib0\<lparr> read_parquet := (\<lambda>cols filters. Inl ScanError) \<rparr>"

text \<open>A security master with two instruments, in the order of \<open>ULTIMO_TICKER\<close>.\<close>

definition master0 :: "master_entry list" where
  "master0 =
     [\<lparr> M_CODISI = Some ''BRB3SAACNOR6'', ULTIMO_TICKER = Some ''B3SA3'', ULTIMO_NOME = Some ''B3'',
        ULTIMA_ESPECIFICACAO = Some ''ON'', TICKERS_HISTORICOS = Some ''B3SA3 | BVMF3'',
        NOMES_HISTORICOS = Some ''B3 | BMFBOVESPA'' \<rparr>,
      \<lparr> M_CODISI = Some ''BRVALEACNOR0'', ULTIMO_TICKER = Some ''VALE3'', ULTIMO_NOME = Some ''VALE'',
        ULTIMA_ESPECIFICACAO = Some ''ON'', TICKERS_HISTORICOS = Some ''VALE3'',
        NOMES_HISTORICOS = Some ''VALE | VALE R DOCE'' \<rparr>]"

definition engine0 :: engine where
  "engine0 = \<lparr> df_dicionario = 0, codbdi_map = 0, tpmerc_map = 1 \<rparr>"

definition world0 :: world where
  "world0 = \<lparr> heap = (\<lambda>a. [])(0 := master0), next_addr = 1,
              dicts = (\<lambda>a. Map.empty)(0 := [''LOTE PADRAO'' \<mapsto> 2], 1 := [''VISTA'' \<mapsto> 10]),
              scans = [] \<rparr>"

definition kwargs_options_vale :: kwargs where
  "kwargs_options_vale = [''asset_class'' \<mapsto> Atom (AStr ''options''), ''entity'' \<mapsto> Atom (AStr ''VALE'')]"

definition kwargs_options_vale_petr :: kwargs where
  "kwargs_options_vale_petr = kwargs_options_vale(''ticker_root'' \<mapsto> Atom (AStr ''petr''))"

definition kwargs_options_b3 :: kwargs where
  "kwargs_options_b3 = [''asset_class'' \<mapsto> Atom (AStr ''options''), ''entity'' \<mapsto> Atom (AStr ''B3'')]"

text \<open>What a call shows to its caller: the exception it propagates, if any, and the ticker
  column of the rows it returns.\<close>

definition raised :: "exn + 'a \<Rightarrow> exn option" where
  "raised r = (case r of Inl e \<Rightarrow> Some e | Inr _ \<Rightarrow> None)"

definition returned_tickers :: "exn + frame \<Rightarrow> cell list" where
  "returned_tickers r = (case r of Inl e \<Rightarrow> [] | Inr df \<Rightarrow> map (\<lambda>row. row ''CODNEG'') (recs df))"

definition returned_frame :: "exn + frame \<Rightarrow> frame" where
  "returned_frame r = (case r of Inl e \<Rightarrow> empty_DataFrame | Inr df \<Rightarrow> df)"

definition kwargs_options_unknown :: kwargs where
  "kwargs_options_unknown = [''asset_class'' \<mapsto> Atom (AStr ''options''), ''entity'' \<mapsto> Atom (AStr ''XPTO'')]"


subsection \<open>Concrete lines and a stand-in parsing library\<close>

text \<open>Unsigned decimal texts (\<open>1234\<close>, \<open>1.5\<close>) read as numbers, eight digits read as a date
  (kept as the number \<open>YYYYMMDD\<close>); exact division stands in for the \<open>float64\<close> one; a
  column of texts with no value in the batch is inferred as \<open>double\<close>.\<close>

definition int_of_digits :: "string \<Rightarrow> int" where
  "int_of_digits s = foldl (\<lambda>n c. 10 * n + (of_char c - 48)) 0 s"

definition toy_to_numeric :: "string \<Rightarrow> number option" where
  "toy_to_numeric s =
     (let a = takeWhile (\<lambda>c. c \<noteq> CHR ''.'') s;
          b = tl (dropWhile (\<lambda>c. c \<noteq> CHR ''.'') s)
      in if a @ b \<noteq> [] \<and> list_all is_digit_09 (a @ b)
         then Some (Finite (of_int (int_of_digits (a @ b)) / 10 ^ length b))
         else None)"

definition toy_to_datetime :: "string \<Rightarrow> int option" where
  "toy_to_datetime s =
     (if length s = 8 \<and> list_all is_digit_09 s then Some (int_of_digits s) else None)"

fun toy_fdiv100 :: "number \<Rightarrow> number" where
  "toy_fdiv100 (Finite q) = Finite (q / 100)"
| "toy_fdiv100 x = x"

definition toy_infer_types :: "drow list \<Rightarrow> arrow_type list" where
  "toy_infer_types rows =
     map (\<lambda>col. if col \<in> set DATE_COLS then ATimestamp
                else if col \<in> set PRICE_COLS then ADouble
                else if col \<in> set INT_COLS then AInt64
                else if list_all (\<lambda>r. map_of r col = Some Missing) rows then ADouble
                else AString) NAMES"

definition pdlib0 :: pdlib where
  "pdlib0 = \<lparr> lower_beyond_ascii = ascii_lower,
               na_text = (\<lambda>s. s \<in> set [''NA'', ''NULL'', ''NaN'', ''nan'', ''null'', ''N/A'']),
               to_numeric = toy_to_numeric, to_datetime_ymd = toy_to_datetime,
               fdiv100 = toy_fdiv100, infer_types = toy_infer_types,
               cast_rows = (\<lambda>from to rows. Some rows) \<rparr>"

text \<open>A line laid out from the values of some of its fields, the others blank.\<close>

definition pad_field :: "nat \<Rightarrow> string \<Rightarrow> string" where
  "pad_field n s = take n (s @ replicate n (CHR '' ''))"

definition make_line :: "(string \<times> string) list \<Rightarrow> string" where
  "make_line vals =
     concat (map (\<lambda>(col, v0, v1). pad_field (v1 - v0 + 1)
                   (case map_of vals col of None \<Rightarrow> [] | Some s \<Rightarrow> s)) COTAHIST_LAYOUT)"

definition line_petr4 :: string where
  "line_petr4 = make_line [(''TIPREG'', ''01''), (''DATA_PREGAO'', ''20230103''), (''CODBDI'', ''02''),
     (''CODNEG'', ''PETR4''), (''TPMERC'', ''010''), (''NOMRES'', ''PETROBRAS''), (''ESPECI'', ''PN''),
     (''MODREF'', ''R$''), (''PREABE'', ''0000000002304''), (''TOTNEG'', ''00012''),
     (''CODISI'', ''BRPETRACNPR6'')]"

text \<open>A line without a currency mark, with a price that is no number and a date that is
  no date.\<close>

definition line_bad_price :: string where
  "line_bad_price = make_line [(''TIPREG'', ''01''), (''DATA_PREGAO'', ''2023AB03''), (''CODBDI'', ''02''),
     (''CODNEG'', ''VALE3''), (''TPMERC'', ''XYZ''), (''PREABE'', ''00000000ABCDE''), (''TOTNEG'', ''00007''),
     (''CODISI'', ''BRVALEACNOR0'')]"

text \<open>The same line with \<open>1.5\<close> in the integer field \<open>TOTNEG\<close>.\<close>

definition line_bad_count :: string where
  "line_bad_count = make_line [(''TIPREG'', ''01''), (''DATA_PREGAO'', ''2023AB03''), (''CODBDI'', ''02''),
     (''CODNEG'', ''VALE3''), (''TPMERC'', ''XYZ''), (''PREABE'', ''00000000ABCDE''), (''TOTNEG'', ''1.5''),
     (''CODISI'', ''BRVALEACNOR0'')]"

definition header_line :: string where
  "header_line = ''00COTAHIST.2023BOVESPA 20231229''"

definition trailer_line :: string where
  "trailer_line = ''99COTAHIST.2023BOVESPA 2023122900000000003''"


definition dir_bad_count :: "(string \<times> (exn + string list)) list" where
  "dir_bad_count =
     [(''COTAHIST_A2023.TXT'', Inr [header_line, line_petr4, line_bad_count, line_bad_price, trailer_line])]"

definition dir_good_count :: "(string \<times> (exn + string list)) list" where
  "dir_good_count =
     [(''COTAHIST_A2023.TXT'', Inr [header_line, line_petr4, line_bad_price, trailer_line])]"



section \<open>Properties of the security master builder\<close>

lemma set_drop_duplicates_subset: "set (drop_duplicates xs) \<subseteq> set xs"
  by (induction xs rule: drop_duplicates.induct) auto

lemma codisi_drop_duplicates: "CODISI ` set (drop_duplicates xs) = CODISI ` set xs"
proof (induction xs rule: drop_duplicates.induct)
  case 1
  show ?case by simp
next
  case (2 r rs)
  have "CODISI ` set (r # rs) = insert (CODISI r) (CODISI ` set (filter (\<lambda>s. CODISI s \<noteq> CODISI r) rs))"
    by auto
  with 2 show ?case by simp
qed

lemma distinct_drop_duplicates: "distinct (map CODISI (drop_duplicates xs))"
proof (induction xs rule: drop_duplicates.induct)
  case 1
  show ?case by simp
next
  case (2 r rs)
  have "CODISI r \<notin> CODISI ` set (drop_duplicates (filter (\<lambda>s. CODISI s \<noteq> CODISI r) rs))"
    unfolding codisi_drop_duplicates by auto
  with 2 show ?case by simp
qed

lemma drop_duplicates_first:
  "sorted (map f xs) \<Longrightarrow> r \<in> set (drop_duplicates xs) \<Longrightarrow> s \<in> set xs \<Longrightarrow>
   CODISI s = CODISI r \<Longrightarrow> f r \<le> f s"
proof (induction xs rule: drop_duplicates.induct)
  case 1
  then show ?case by simp
next
  case (2 r0 rs)
  let ?rest = "filter (\<lambda>s. CODISI s \<noteq> CODISI r0) rs"
  show ?case
  proof (cases "r = r0")
    case True
    with "2.prems"(1,3) show ?thesis by auto
  next
    case False
    with "2.prems"(2) have in_rest: "r \<in> set (drop_duplicates ?rest)" by simp
    then have "r \<in> set ?rest" using set_drop_duplicates_subset by blast
    then have ne: "CODISI r \<noteq> CODISI r0" by simp
    with "2.prems"(3,4) have s_in: "s \<in> set ?rest" by auto
    have "sorted (map f ?rest)"
      using "2.prems"(1) by (simp add: sorted_filter)
    from "2.IH"[OF this in_rest s_in "2.prems"(4)] show ?thesis .
  qed
qed

lemma desc_date_key_le: "(desc_date_key r \<le> desc_date_key s) = date_le (DATA_PREGAO s) (DATA_PREGAO r)"
  by (cases "DATA_PREGAO r"; cases "DATA_PREGAO s") (simp_all add: desc_date_key_def)

lemma base_latest:
  assumes "r \<in> set (df_base_ativos xs)" "s \<in> set xs" "CODISI s = CODISI r"
  shows "date_le (DATA_PREGAO s) (DATA_PREGAO r)"
proof -
  have "sorted (map desc_date_key (sort_values_date_desc xs))"
    by (simp add: sort_values_date_desc_def)
  moreover have "s \<in> set (sort_values_date_desc xs)"
    using assms(2) by (simp add: sort_values_date_desc_def)
  ultimately have "desc_date_key r \<le> desc_date_key s"
    using assms(1,3) drop_duplicates_first unfolding df_base_ativos_def by blast
  then show ?thesis by (simp add: desc_date_key_le)
qed

lemma set_base_subset: "set (df_base_ativos xs) \<subseteq> set xs"
  using set_drop_duplicates_subset[of "sort_values_date_desc xs"]
  by (simp add: df_base_ativos_def sort_values_date_desc_def)

lemma codisi_base: "CODISI ` set (df_base_ativos xs) = CODISI ` set xs"
  by (simp add: df_base_ativos_def codisi_drop_duplicates sort_values_date_desc_def)

lemma distinct_base: "distinct (map CODISI (df_base_ativos xs))"
  by (simp add: df_base_ativos_def distinct_drop_duplicates)

lemma M_CODISI_merge_entry: "M_CODISI \<circ> merge_entry vt vn = CODISI"
  by (rule ext) (simp add: merge_entry_def)


lemma set_unique: "set (unique xs) = set xs"
  by (simp add: unique_def)

lemma distinct_unique: "distinct (unique xs)"
  by (simp add: unique_def)

lemma set_somes:
  "set (concat (map (\<lambda>item. case item of None \<Rightarrow> [] | Some s \<Rightarrow> [s]) xs)) = {s. Some s \<in> set xs}"
  by (induction xs) (auto split: option.splits)

lemma distinct_somes:
  "distinct xs \<Longrightarrow> distinct (concat (map (\<lambda>item. case item of None \<Rightarrow> [] | Some s \<Rightarrow> [s]) xs))"
  by (induction xs) (auto simp: set_somes split: option.splits)

lemma set_trail_tokens: "set (trail_tokens x) = {s. Some s \<in> set x}"
  unfolding trail_tokens_def by (simp only: set_sort set_somes set_unique)

lemma distinct_trail_tokens: "distinct (trail_tokens x)"
  by (simp add: trail_tokens_def distinct_somes distinct_unique)

lemma sorted_trail_tokens: "sorted (trail_tokens x)"
  by (simp add: trail_tokens_def)

lemma set_group_keys: "set (group_keys rows) = {k. \<exists>r\<in>set rows. CODISI r = Some k}"
  by (auto simp: group_keys_def split: option.splits)

lemma lookup_variacoes:
  "r \<in> set rows \<Longrightarrow> CODISI r = Some k \<Longrightarrow>
   lookup_left (variacoes col rows) (CODISI r) = Some (trail (group_values col k rows))"
proof -
  assume a: "r \<in> set rows" "CODISI r = Some k"
  then have "k \<in> set (group_keys rows)" by (auto simp: set_group_keys)
  then have "map_of (map (\<lambda>k. (k, trail (group_values col k rows))) (group_keys rows)) k
      = Some (trail (group_values col k rows))"
    by (simp add: map_of_map_restrict)
  with a show ?thesis by (simp add: lookup_left_def variacoes_def)
qed

lemma group_values_dropna: "group_values col k (dropna_codisi rows) = group_values col k rows"
proof -
  have "filter (\<lambda>r. CODISI r = Some k) (filter (\<lambda>r. CODISI r \<noteq> None) rows)
      = filter (\<lambda>r. CODISI r = Some k) rows"
    unfolding filter_filter by (rule filter_cong) auto
  then show ?thesis by (simp only: group_values_def dropna_codisi_def)
qed

lemma set_group_values: "{s. Some s \<in> set (group_values col k rows)} = {t. \<exists>r\<in>set rows. CODISI r = Some k \<and> col r = Some t}"
  by (force simp: group_values_def)

lemma set_security_master:
  "set (security_master rows) =
     merge_entry (variacoes CODNEG (dropna_codisi rows)) (variacoes NOMRES (dropna_codisi rows))
       ` set (df_base_ativos (dropna_codisi rows))"
  by (simp add: security_master_def Let_def)


lemma distinct_map_sort_key: "distinct (map f (sort_key k xs)) = distinct (map f xs)"
  by (simp add: distinct_map)

text \<open>
  Claim C1. \<open>create_security_master\<close> yields exactly one entry per distinct non-missing
  \<open>CODISI\<close>: the identifiers of the entries are pairwise distinct and are exactly the
  non-missing identifiers of the store, so a row with a missing identifier contributes
  nothing. Each entry's latest ticker, name and specification are those of one row of its
  identifier whose trade date is maximal among the rows of that identifier (a missing date
  counts below every date, as \<open>sort_values\<close> puts it last).
\<close>

theorem security_master_one_entry_per_identifier:
  assumes "create_security_master (Some rows) = Some master"
  shows "distinct (map M_CODISI master)
       \<and> set (map M_CODISI master) = {Some k |k. \<exists>r\<in>set rows. CODISI r = Some k}
       \<and> (\<forall>e\<in>set master. \<exists>r\<in>set rows.
             CODISI r = M_CODISI e \<and> CODNEG r = ULTIMO_TICKER e \<and> NOMRES r = ULTIMO_NOME e
           \<and> ESPECI r = ULTIMA_ESPECIFICACAO e
           \<and> (\<forall>s\<in>set rows. CODISI s = CODISI r \<longrightarrow> date_le (DATA_PREGAO s) (DATA_PREGAO r)))"
proof -
  let ?A = "dropna_codisi rows"
  let ?m = "merge_entry (variacoes CODNEG ?A) (variacoes NOMRES ?A)"
  from assms have master: "master = security_master rows"
    by (simp add: create_security_master_def)
  have ids: "map M_CODISI (map ?m (df_base_ativos ?A)) = map CODISI (df_base_ativos ?A)"
    by (simp add: M_CODISI_merge_entry)
  have "distinct (map M_CODISI (map ?m (df_base_ativos ?A)))"
    unfolding ids by (rule distinct_base)
  then have d: "distinct (map M_CODISI master)"
    unfolding master security_master_def Let_def by (simp only: distinct_map_sort_key)
  have "set (map M_CODISI master) = CODISI ` set (df_base_ativos ?A)"
    unfolding master set_map set_security_master by (simp add: image_image merge_entry_def)
  also have "\<dots> = CODISI ` set ?A" by (rule codisi_base)
  also have "\<dots> = {Some k |k. \<exists>r\<in>set rows. CODISI r = Some k}"
    by (force simp: dropna_codisi_def)
  finally have s: "set (map M_CODISI master) = {Some k |k. \<exists>r\<in>set rows. CODISI r = Some k}" .
  have l: "\<exists>r\<in>set rows.
             CODISI r = M_CODISI e \<and> CODNEG r = ULTIMO_TICKER e \<and> NOMRES r = ULTIMO_NOME e
           \<and> ESPECI r = ULTIMA_ESPECIFICACAO e
           \<and> (\<forall>s\<in>set rows. CODISI s = CODISI r \<longrightarrow> date_le (DATA_PREGAO s) (DATA_PREGAO r))"
    if "e \<in> set master" for e
  proof -
    from that obtain r where r: "r \<in> set (df_base_ativos ?A)" "e = ?m r"
      unfolding master set_security_master by blast
    then have rA: "r \<in> set ?A" using set_base_subset by blast
    then have r_rows: "r \<in> set rows" and r_id: "CODISI r \<noteq> None"
      by (simp_all add: dropna_codisi_def)
    have "date_le (DATA_PREGAO s) (DATA_PREGAO r)" if "s \<in> set rows" "CODISI s = CODISI r" for s
    proof -
      from that r_id have "s \<in> set ?A" by (simp add: dropna_codisi_def)
      from base_latest [OF r(1) this that(2)] show ?thesis .
    qed
    with r_rows r(2) show ?thesis by (auto simp: merge_entry_def)
  qed
  from d s l show ?thesis by blast
qed



theorem security_master_one_entry_per_identifier_witness:
  "create_security_master (Some rows0) = Some (security_master rows0)
   \<and> map M_CODISI (security_master rows0) = [Some ''BRPETRACNPR6'']
   \<and> map ULTIMO_TICKER (security_master rows0) = [Some ''PETR4'']
   \<and> distinct (map M_CODISI (security_master rows0))
   \<and> set (map M_CODISI (security_master rows0)) = {Some k |k. \<exists>r\<in>set rows0. CODISI r = Some k}"
proof -
  have c: "create_security_master (Some rows0) = Some (security_master rows0)"
    by (simp add: create_security_master_def)
  have e: "map M_CODISI (security_master rows0) = [Some ''BRPETRACNPR6'']"
          "map ULTIMO_TICKER (security_master rows0) = [Some ''PETR4'']"
    by code_simp+
  from security_master_one_entry_per_identifier [OF c] c e show ?thesis by blast
qed

lemma entry_trails:
  assumes "e \<in> set (security_master rows)"
  shows "\<exists>k. M_CODISI e = Some k
     \<and> TICKERS_HISTORICOS e = Some (trail (group_values CODNEG k rows))
     \<and> NOMES_HISTORICOS e = Some (trail (group_values NOMRES k rows))"
proof -
  let ?A = "dropna_codisi rows"
  from assms obtain r where r: "r \<in> set (df_base_ativos ?A)"
      "e = merge_entry (variacoes CODNEG ?A) (variacoes NOMRES ?A) r"
    unfolding set_security_master by blast
  then have rA: "r \<in> set ?A" using set_base_subset by blast
  then obtain k where k: "CODISI r = Some k" by (auto simp: dropna_codisi_def)
  have "lookup_left (variacoes col ?A) (CODISI r) = Some (trail (group_values col k rows))" for col
    using lookup_variacoes [OF rA k, of col] by (simp only: group_values_dropna)
  with r(2) k show ?thesis by (simp add: merge_entry_def)
qed

text \<open>
  Claim C4, amended. For every entry, the historical-ticker and historical-name trails are
  the \<open>' | '\<close>-joined lists of the distinct values observed for the entry's identifier, in
  ascending lexicographic order without duplicates. A missing value gives no token: every
  token is a value some row of the identifier holds. An empty text that is stored as a
  ticker or a name is such a value and stays in the trail as an empty token; only then is
  a token empty.
\<close>

theorem historical_trails_sorted_distinct:
  assumes "create_security_master (Some rows) = Some master"
    and "e \<in> set master"
  shows "\<exists>k ts ns. M_CODISI e = Some k
     \<and> TICKERS_HISTORICOS e = Some (join '' | '' ts)
     \<and> NOMES_HISTORICOS e = Some (join '' | '' ns)
     \<and> sorted ts \<and> distinct ts
     \<and> set ts = {t. \<exists>r\<in>set rows. CODISI r = Some k \<and> CODNEG r = Some t}
     \<and> ([] \<in> set ts) = (\<exists>r\<in>set rows. CODISI r = Some k \<and> CODNEG r = Some [])
     \<and> sorted ns \<and> distinct ns
     \<and> set ns = {n. \<exists>r\<in>set rows. CODISI r = Some k \<and> NOMRES r = Some n}
     \<and> ([] \<in> set ns) = (\<exists>r\<in>set rows. CODISI r = Some k \<and> NOMRES r = Some [])"
proof -
  from assms(1) have "e \<in> set (security_master rows)"
    using assms(2) by (simp add: create_security_master_def)
  from entry_trails [OF this] obtain k where k: "M_CODISI e = Some k"
     "TICKERS_HISTORICOS e = Some (trail (group_values CODNEG k rows))"
     "NOMES_HISTORICOS e = Some (trail (group_values NOMRES k rows))" by blast
  let ?ts = "trail_tokens (group_values CODNEG k rows)"
  let ?ns = "trail_tokens (group_values NOMRES k rows)"
  have st: "set ?ts = {t. \<exists>r\<in>set rows. CODISI r = Some k \<and> CODNEG r = Some t}"
    by (simp only: set_trail_tokens set_group_values)
  have sn: "set ?ns = {n. \<exists>r\<in>set rows. CODISI r = Some k \<and> NOMRES r = Some n}"
    by (simp only: set_trail_tokens set_group_values)
  have et: "([] \<in> set ?ts) = (\<exists>r\<in>set rows. CODISI r = Some k \<and> CODNEG r = Some [])"
    unfolding st by blast
  have en: "([] \<in> set ?ns) = (\<exists>r\<in>set rows. CODISI r = Some k \<and> NOMRES r = Some [])"
    unfolding sn by blast
  from k have "M_CODISI e = Some k \<and> TICKERS_HISTORICOS e = Some (join '' | '' ?ts)
     \<and> NOMES_HISTORICOS e = Some (join '' | '' ?ns)"
    by (simp add: trail_def)
  with st sn et en sorted_trail_tokens distinct_trail_tokens show ?thesis by blast
qed

theorem historical_trails_sorted_distinct_witness:
  "create_security_master (Some rows0) = Some (security_master rows0)
   \<and> map TICKERS_HISTORICOS (security_master rows0) = [Some ''PETR3 | PETR4'']
   \<and> (\<exists>e k ts ns. e \<in> set (security_master rows0) \<and> M_CODISI e = Some k
     \<and> TICKERS_HISTORICOS e = Some (join '' | '' ts)
     \<and> NOMES_HISTORICOS e = Some (join '' | '' ns)
     \<and> sorted ts \<and> distinct ts
     \<and> set ts = {t. \<exists>r\<in>set rows0. CODISI r = Some k \<and> CODNEG r = Some t}
     \<and> sorted ns \<and> distinct ns
     \<and> set ns = {n. \<exists>r\<in>set rows0. CODISI r = Some k \<and> NOMRES r = Some n})"
proof -
  have c: "create_security_master (Some rows0) = Some (security_master rows0)"
    by (simp add: create_security_master_def)
  have t: "map TICKERS_HISTORICOS (security_master rows0) = [Some ''PETR3 | PETR4'']"
    by code_simp
  have "security_master rows0 \<noteq> []" by code_simp
  then obtain e where e: "e \<in> set (security_master rows0)" by (cases "security_master rows0") auto
  from historical_trails_sorted_distinct [OF c e] e c t show ?thesis by blast
qed

text \<open>
  The claim as first stated fails on a store that holds an empty text as a ticker: only
  \<open>pd.notna\<close> filters the values, so the trail begins with an empty token.
\<close>

theorem historical_trails_sorted_distinct_counterexample:
  "create_security_master (Some rows_empty_ticker) = Some (security_master rows_empty_ticker)
   \<and> map TICKERS_HISTORICOS (security_master rows_empty_ticker) = [Some '' | PETR4'']
   \<and> trail_tokens (group_values CODNEG ''BRPETRACNPR6'' rows_empty_ticker) = [[], ''PETR4'']"
  by code_simp

section \<open>Properties of the query engine\<close>

lemma entity_stage_no_entity:
  "dict_get params ''entity'' = Atom ANone \<Longrightarrow> entity_stage L self params w = (Continue (params, None), w)"
  by (simp add: entity_stage_def)

text \<open>
  Claim C2. When none of the starter keys (\<open>tickers\<close>, \<open>entity\<close>, \<open>codisi\<close>, \<open>codbdi\<close>,
  \<open>tpmerc\<close>, \<open>asset_class\<close>, \<open>ticker_root\<close>) is among the keyword arguments, \<open>get_quotes\<close>
  raises \<open>ValueError\<close> and leaves the world as it was: no scan of the store is issued.
\<close>

theorem get_quotes_no_starter:
  assumes "\<forall>k\<in>set valid_starters. kwargs k = None"
  shows "get_quotes L self kwargs w = (Inl ValueError, w)
       \<and> scans (snd (get_quotes L self kwargs w)) = scans w"
proof -
  from assms have "kwargs ''entity'' = None" by (simp add: valid_starters_def)
  then have "entity_stage L self kwargs w = (Continue (kwargs, None), w)"
    by (simp add: entity_stage_no_entity dict_get_def)
  moreover from assms have "\<not> list_ex (\<lambda>k. kwargs k \<noteq> None) valid_starters"
    by (simp add: list_ex_iff)
  ultimately show ?thesis by (simp add: get_quotes_def)
qed

theorem get_quotes_no_starter_witness:
  "list_all (\<lambda>k. [''start_date'' \<mapsto> Atom (AStr ''2023-01-01'')] k = None) valid_starters \<and>
   get_quotes lib0 engine0 [''start_date'' \<mapsto> Atom (AStr ''2023-01-01'')] world0 = (Inl ValueError, world0)"
proof -
  have h: "\<forall>k\<in>set valid_starters. [''start_date'' \<mapsto> Atom (AStr ''2023-01-01'')] k = None"
    by (simp add: valid_starters_def)
  have la: "list_all (\<lambda>k. [''start_date'' \<mapsto> Atom (AStr ''2023-01-01'')] k = None) valid_starters"
    unfolding list_all_iff by (rule h)
  from get_quotes_no_starter [OF h, of lib0 engine0 world0] la show ?thesis by blast
qed




lemma scan_stage_result:
  "\<exists>df. scan_stage L params troot cols filters w =
      (Inr df, w\<lparr> scans := scans w @ [(cols, if filters = [] then None else Some filters)] \<rparr>)
    \<and> (case fst (try_body L params troot cols filters w) of
          Inl e \<Rightarrow> df = empty_DataFrame
        | Inr d \<Rightarrow> df = d)"
  by (auto simp: scan_stage_def try_body_def Let_def split: sum.splits prod.splits)



lemma find_assets_scans: "scans (snd (find_assets L self q w)) = scans w"
  by (auto simp: find_assets_def alloc_def Let_def split: pyval.splits atom.splits option.splits)

lemma entity_stage_scans: "scans (snd (entity_stage L self params w)) = scans w"
proof -
  note fa = find_assets_scans [of L self "dict_get params ''entity''" w]
  show ?thesis
    using fa
    by (cases "find_assets L self (dict_get params ''entity'') w")
       (auto simp: entity_stage_def Let_def split: sum.splits list.splits option.splits)
qed

lemma scan_stage_Inr: "\<exists>df. fst (scan_stage L p r cs fs w) = Inr df"
  using scan_stage_result [of L p r cs fs w] by auto

lemma get_quotes_cases:
  "(\<exists>p r cs fs w1. scans w1 = scans w \<and> get_quotes L self kwargs w = scan_stage L p r cs fs w1)
   \<or> scans (snd (get_quotes L self kwargs w)) = scans w"
proof (cases "entity_stage L self kwargs w")
  case (Pair st w1)
  have s: "scans w1 = scans w" using entity_stage_scans [of L self kwargs w] Pair by simp
  show ?thesis
  proof (cases st)
    case (Raise x)
    with Pair s show ?thesis by (simp add: get_quotes_def)
  next
    case (Return x)
    with Pair s show ?thesis by (simp add: get_quotes_def)
  next
    case (Continue pr)
    obtain p r where pr: "pr = (p, r)" by (cases pr)
    show ?thesis
    proof (cases "\<exists>fs cs. list_ex (\<lambda>k. p k \<noteq> None) valid_starters
        \<and> build_parquet_filters L self w1 p = Inr fs \<and> columns_to_load p = Inr cs")
      case True
      then obtain fs cs where "list_ex (\<lambda>k. p k \<noteq> None) valid_starters"
        "build_parquet_filters L self w1 p = Inr fs" "columns_to_load p = Inr cs" by blast
      with Pair Continue pr have "get_quotes L self kwargs w = scan_stage L p r cs fs w1"
        by (simp add: get_quotes_def)
      with s show ?thesis by blast
    next
      case False
      with Pair Continue pr s show ?thesis
        by (auto simp: get_quotes_def split: sum.splits)
    qed
  qed
qed

lemma try_body_outcome:
  "(case fst (try_body L params tr cs fs w) of
      Inl e \<Rightarrow>
        (\<exists>e'. read_parquet L cs (if fs = [] then None else Some fs) = Inl e')
      \<or> (\<exists>df0. read_parquet L cs (if fs = [] then None else Some fs) = Inr df0
            \<and> ((\<exists>e'. post_filter L params tr df0 = Inl e')
               \<or> (\<exists>d e'. post_filter L params tr df0 = Inr d \<and> \<not> df_empty d \<and> sort_values d = Inl e')))
    | Inr df \<Rightarrow>
        (\<exists>df0 d. read_parquet L cs (if fs = [] then None else Some fs) = Inr df0
           \<and> post_filter L params tr df0 = Inr d
           \<and> (if df_empty d then df = d else sort_values d = Inr df)))"
  by (auto simp: try_body_def Let_def split: sum.splits)

text \<open>
  Claim C3. A call of \<open>get_quotes\<close> that reaches the scan stage (the exploratory stage
  goes on, a starter key is present, the storage predicates and the projection are built)
  issues one scan and returns a frame, never an exception: the empty \<open>DataFrame\<close> when
  the scan, a post-filter or the sort raised, and otherwise the complete result (scanned,
  post-filtered, and sorted unless empty), never something in between. Hence a call that
  propagates an exception has issued no scan, and a call that issued one returns a frame.
\<close>

theorem get_quotes_scan_failures_caught:
  "(\<forall>params tr w1 fs cs.
       entity_stage L self kwargs w = (Continue (params, tr), w1)
     \<and> list_ex (\<lambda>k. params k \<noteq> None) valid_starters
     \<and> build_parquet_filters L self w1 params = Inr fs
     \<and> columns_to_load params = Inr cs
     \<longrightarrow> (\<exists>df. get_quotes L self kwargs w =
               (Inr df, w1\<lparr> scans := scans w1 @ [(cs, if fs = [] then None else Some fs)] \<rparr>)
           \<and> (df = empty_DataFrame
              \<or> (\<exists>df0 d. read_parquet L cs (if fs = [] then None else Some fs) = Inr df0
                    \<and> post_filter L params tr df0 = Inr d
                    \<and> (if df_empty d then df = d else sort_values d = Inr df)))
           \<and> ((\<exists>e. read_parquet L cs (if fs = [] then None else Some fs) = Inl e)
                \<longrightarrow> df = empty_DataFrame)
           \<and> (\<forall>df0. read_parquet L cs (if fs = [] then None else Some fs) = Inr df0
                  \<and> (\<exists>e. post_filter L params tr df0 = Inl e) \<longrightarrow> df = empty_DataFrame)
           \<and> (\<forall>df0 d. read_parquet L cs (if fs = [] then None else Some fs) = Inr df0
                  \<and> post_filter L params tr df0 = Inr d \<and> \<not> df_empty d
                  \<and> (\<exists>e. sort_values d = Inl e) \<longrightarrow> df = empty_DataFrame)))
   \<and> (\<forall>e. fst (get_quotes L self kwargs w) = Inl e \<longrightarrow>
          scans (snd (get_quotes L self kwargs w)) = scans w)
   \<and> (scans (snd (get_quotes L self kwargs w)) \<noteq> scans w \<longrightarrow>
          (\<exists>df. fst (get_quotes L self kwargs w) = Inr df))"
proof -
  have main: "\<exists>df. get_quotes L self kwargs w =
               (Inr df, w1\<lparr> scans := scans w1 @ [(cs, if fs = [] then None else Some fs)] \<rparr>)
           \<and> (df = empty_DataFrame
              \<or> (\<exists>df0 d. read_parquet L cs (if fs = [] then None else Some fs) = Inr df0
                    \<and> post_filter L params tr df0 = Inr d
                    \<and> (if df_empty d then df = d else sort_values d = Inr df)))
           \<and> ((\<exists>e. read_parquet L cs (if fs = [] then None else Some fs) = Inl e)
                \<longrightarrow> df = empty_DataFrame)
           \<and> (\<forall>df0. read_parquet L cs (if fs = [] then None else Some fs) = Inr df0
                  \<and> (\<exists>e. post_filter L params tr df0 = Inl e) \<longrightarrow> df = empty_DataFrame)
           \<and> (\<forall>df0 d. read_parquet L cs (if fs = [] then None else Some fs) = Inr df0
                  \<and> post_filter L params tr df0 = Inr d \<and> \<not> df_empty d
                  \<and> (\<exists>e. sort_values d = Inl e) \<longrightarrow> df = empty_DataFrame)"
    if h: "entity_stage L self kwargs w = (Continue (params, tr), w1)"
      "list_ex (\<lambda>k. params k \<noteq> None) valid_starters"
      "build_parquet_filters L self w1 params = Inr fs"
      "columns_to_load params = Inr cs"
    for params tr w1 fs cs
  proof -
    let ?fopt = "if fs = [] then None else Some fs"
    from h have gq: "get_quotes L self kwargs w = scan_stage L params tr cs fs w1"
      by (simp add: get_quotes_def)
    from scan_stage_result [of L params tr cs fs w1] obtain df where
      df: "scan_stage L params tr cs fs w1 = (Inr df, w1\<lparr> scans := scans w1 @ [(cs, ?fopt)] \<rparr>)"
      and c: "(case fst (try_body L params tr cs fs w1) of
          Inl e \<Rightarrow> df = empty_DataFrame | Inr d \<Rightarrow> df = d)" by blast
    note o = try_body_outcome [where L = L and params = params and tr = tr and cs = cs and fs = fs and w = w1]
    show ?thesis
    proof (cases "fst (try_body L params tr cs fs w1)")
      case (Inl e)
      with c have "df = empty_DataFrame" by simp
      with gq df show ?thesis by auto
    next
      case (Inr d')
      with c have dd: "df = d'" by simp
      from o Inr obtain df0 d where r: "read_parquet L cs ?fopt = Inr df0"
        "post_filter L params tr df0 = Inr d"
        "if df_empty d then d' = d else sort_values d = Inr d'" by auto
      from r dd have "read_parquet L cs ?fopt = Inr df0 \<and> post_filter L params tr df0 = Inr d
          \<and> (if df_empty d then df = d else sort_values d = Inr df)" by auto
      with gq df r show ?thesis by (auto split: if_splits)
    qed
  qed
  have a: "scans (snd (get_quotes L self kwargs w)) = scans w" if "fst (get_quotes L self kwargs w) = Inl e" for e
  proof -
    from get_quotes_cases [of w L self kwargs] show ?thesis
    proof
      assume "\<exists>p r cs fs w1. scans w1 = scans w \<and> get_quotes L self kwargs w = scan_stage L p r cs fs w1"
      then obtain p r cs fs w1 where "get_quotes L self kwargs w = scan_stage L p r cs fs w1" by blast
      with scan_stage_Inr [of L p r cs fs w1] that show ?thesis by auto
    qed
  qed
  have b: "\<exists>df. fst (get_quotes L self kwargs w) = Inr df"
    if "scans (snd (get_quotes L self kwargs w)) \<noteq> scans w"
    using a that by (cases "fst (get_quotes L self kwargs w)") auto
  from main a b show ?thesis by blast
qed

lemma find_assets_heap:
  assumes "df_dicionario self < next_addr w"
  shows "heap (snd (find_assets L self q w)) (df_dicionario self) = heap w (df_dicionario self)
       \<and> dicts (snd (find_assets L self q w)) = dicts w
       \<and> (\<forall>a. fst (find_assets L self q w) = Inr a \<longrightarrow> a = next_addr w)"
  using assms
  by (auto simp: find_assets_def alloc_def Let_def split: pyval.splits atom.splits option.splits)

lemma entity_stage_heap:
  assumes "df_dicionario self < next_addr w"
  shows "heap (snd (entity_stage L self params w)) (df_dicionario self) = heap w (df_dicionario self)
       \<and> dicts (snd (entity_stage L self params w)) = dicts w"
proof -
  note fa = find_assets_heap [OF assms, of L "dict_get params ''entity''"]
  show ?thesis
    using fa
    by (cases "find_assets L self (dict_get params ''entity'') w")
       (auto simp: entity_stage_def Let_def split: sum.splits list.splits option.splits)
qed

lemma scan_stage_heap:
  "heap (snd (scan_stage L p r cs fs w)) = heap w \<and> dicts (snd (scan_stage L p r cs fs w)) = dicts w"
  using scan_stage_result [of L p r cs fs w] by auto

lemma get_quotes_heap:
  assumes "df_dicionario self < next_addr w"
  shows "heap (snd (get_quotes L self kwargs w)) (df_dicionario self) = heap w (df_dicionario self)
       \<and> dicts (snd (get_quotes L self kwargs w)) = dicts w"
proof (cases "entity_stage L self kwargs w")
  case (Pair st w1)
  have h: "heap w1 (df_dicionario self) = heap w (df_dicionario self) \<and> dicts w1 = dicts w"
    using entity_stage_heap [OF assms, of L kwargs] Pair by simp
  show ?thesis
  proof (cases st)
    case (Raise x)
    with Pair h show ?thesis by (simp add: get_quotes_def)
  next
    case (Return x)
    with Pair h show ?thesis by (simp add: get_quotes_def)
  next
    case (Continue pr)
    obtain p r where pr: "pr = (p, r)" by (cases pr)
    with Pair Continue h show ?thesis
      by (auto simp: get_quotes_def scan_stage_heap split: sum.splits)
  qed
qed

lemma list_tickers_world: "snd (list_tickers L self asset_type w) = w"
  by (simp add: list_tickers_def split: option.splits)

text \<open>
  Claim C9. With the security master allocated, none of the query operations
  (\<open>find_assets\<close>, \<open>get_asset_info\<close>, \<open>get_quotes\<close>, \<open>list_tickers\<close>) changes the table at
  \<open>df_dicionario\<close> or any code dictionary (the objects at \<open>codbdi_map\<close> and \<open>tpmerc_map\<close>
  among them); \<open>list_tickers\<close> changes nothing at all. The table \<open>find_assets\<close> returns
  lives at another address than the master, so overwriting it with anything leaves the
  master as it was.
\<close>

theorem queries_leave_security_master_unchanged:
  assumes "df_dicionario self < next_addr w"
  shows "heap (snd (find_assets L self q w)) (df_dicionario self) = heap w (df_dicionario self)
     \<and> dicts (snd (find_assets L self q w)) = dicts w
     \<and> heap (snd (get_asset_info L self q w)) (df_dicionario self) = heap w (df_dicionario self)
     \<and> dicts (snd (get_asset_info L self q w)) = dicts w
     \<and> heap (snd (get_quotes L self kwargs w)) (df_dicionario self) = heap w (df_dicionario self)
     \<and> dicts (snd (get_quotes L self kwargs w)) = dicts w
     \<and> snd (list_tickers L self asset_type w) = w
     \<and> (\<forall>a w'. find_assets L self q w = (Inr a, w') \<longrightarrow>
           a \<noteq> df_dicionario self
         \<and> (\<forall>t. heap (w'\<lparr> heap := (heap w')(a := t) \<rparr>) (df_dicionario self) = heap w (df_dicionario self)))"
proof -
  note fa = find_assets_heap [OF assms, of L q]
  have g: "heap (snd (get_asset_info L self q w)) (df_dicionario self) = heap w (df_dicionario self)
       \<and> dicts (snd (get_asset_info L self q w)) = dicts w"
    using fa by (cases "find_assets L self q w") (auto simp: get_asset_info_def split: sum.splits list.splits)
  have c: "a \<noteq> df_dicionario self
         \<and> (\<forall>t. heap (w'\<lparr> heap := (heap w')(a := t) \<rparr>) (df_dicionario self) = heap w (df_dicionario self))"
    if "find_assets L self q w = (Inr a, w')" for a w'
    using fa that assms by auto
  from fa g c get_quotes_heap [OF assms, of L kwargs] list_tickers_world [of L self asset_type w]
  show ?thesis by blast
qed

lemma upper_char_AZ: "is_upper_AZ c \<Longrightarrow> upper_char c = c"
proof -
  assume "is_upper_AZ c"
  then have "c \<le> CHR ''Z''" by (simp add: is_upper_AZ_def)
  moreover have "CHR ''Z'' < CHR ''a''" by (simp add: less_char_def)
  ultimately have "\<not> CHR ''a'' \<le> c" by (meson leD order.strict_trans1 not_le)
  then show ?thesis by (simp add: upper_char_def)
qed

lemma is_upper_AZ_ascii: "is_upper_AZ c \<Longrightarrow> c \<le> CHR 0x7F"
proof -
  assume "is_upper_AZ c"
  then have "c \<le> CHR ''Z''" by (simp add: is_upper_AZ_def)
  moreover have "CHR ''Z'' \<le> CHR 0x7F" by (simp add: less_eq_char_def)
  ultimately show ?thesis by (rule order_trans)
qed

lemma upper_AZ: "list_all is_upper_AZ s \<Longrightarrow> upper L s = s"
proof -
  assume a: "list_all is_upper_AZ s"
  then have "is_ascii s" by (induction s) (simp_all add: is_ascii_def is_upper_AZ_ascii)
  moreover from a have "ascii_upper s = s"
    by (induction s) (simp_all add: ascii_upper_def upper_char_AZ)
  ultimately show ?thesis by (simp add: upper_def)
qed

lemma match_root_Some:
  "match_root t = Some rt \<Longrightarrow> rt = take 4 t \<and> length rt = 4 \<and> list_all is_upper_AZ rt"
  by (auto simp: match_root_def split: if_splits)

lemma cell_test_CStr: "cell_test m c \<Longrightarrow> \<exists>s. c = CStr s \<and> m s"
  by (cases c) simp_all

lemma select_rows_recs:
  "r \<in> set (recs (select_rows df col m)) \<Longrightarrow> r \<in> set (recs df) \<and> (\<exists>s. r col = CStr s \<and> m s)"
  by (auto simp: select_rows_def dest: cell_test_CStr)

lemma filter_ticker_root_rows:
  assumes "ticker_root_of params tr = Atom (AStr rt)" "rt \<noteq> []"
    and "filter_ticker_root L params tr df = Inr d" "r \<in> set (recs d)"
  shows "\<exists>s. r ''CODNEG'' = CStr s \<and> startswith s (upper L rt)"
  using assms
  by (auto simp: filter_ticker_root_def Let_def split: sum.splits dest: select_rows_recs)

lemma filter_ticker_root_not_text:
  assumes "truthy (ticker_root_of params tr)" "\<forall>r. ticker_root_of params tr \<noteq> Atom (AStr r)"
  shows "\<exists>e. filter_ticker_root L params tr df = Inl e"
  using assms
  by (auto simp: filter_ticker_root_def Let_def split: sum.splits pyval.splits atom.splits)

lemma filter_bdr_rows:
  "filter_bdr L params df = Inr d \<Longrightarrow> set (recs d) \<subseteq> set (recs df)"
  by (auto simp: filter_bdr_def Let_def
      split: sum.splits if_splits pyval.splits atom.splits option.splits dest: select_rows_recs)

lemma filter_especificacao_rows:
  "filter_especificacao L params df = Inr d \<Longrightarrow> set (recs d) \<subseteq> set (recs df)"
  by (auto simp: filter_especificacao_def Let_def
      split: sum.splits if_splits pyval.splits atom.splits option.splits dest: select_rows_recs)

lemma sort_values_rows: "sort_values df = Inr d \<Longrightarrow> set (recs d) = set (recs df)"
  by (auto simp: sort_values_def split: if_splits)

lemma try_body_rows:
  assumes "ticker_root_of params tr = Atom (AStr rt)" "rt \<noteq> []"
    and "fst (try_body L params tr cs fs w) = Inr d"
  shows "df_empty d \<or> (\<forall>r\<in>set (recs d). \<exists>s. r ''CODNEG'' = CStr s \<and> startswith s (upper L rt))"
proof (cases "read_parquet L cs (if fs = [] then None else Some fs)")
  case (Inl e)
  with assms(3) show ?thesis by (simp add: try_body_def Let_def)
next
  case (Inr df0)
  show ?thesis
  proof (cases "post_filter L params tr df0")
    case (Inl e)
    with Inr assms(3) show ?thesis by (simp add: try_body_def Let_def)
  next
    case pf: (Inr df)
    show ?thesis
    proof (cases "df_empty df")
      case True
      with Inr pf assms(3) show ?thesis by (simp add: try_body_def Let_def)
    next
      case False
      with Inr pf assms(3) have sv: "sort_values df = Inr d" by (simp add: try_body_def Let_def)
      have ne: "\<not> df_empty df0" using pf False by (auto simp: post_filter_def split: if_splits)
      with pf obtain d1 d2 where d: "filter_ticker_root L params tr df0 = Inr d1"
          "filter_bdr L params d1 = Inr d2" "filter_especificacao L params d2 = Inr df"
        by (auto simp: post_filter_def split: sum.splits)
      have "\<exists>s. r ''CODNEG'' = CStr s \<and> startswith s (upper L rt)" if "r \<in> set (recs d)" for r
      proof -
        from that sv have "r \<in> set (recs df)" using sort_values_rows by blast
        with d(3) have "r \<in> set (recs d2)" using filter_especificacao_rows by blast
        with d(2) have "r \<in> set (recs d1)" using filter_bdr_rows by blast
        with filter_ticker_root_rows [OF assms(1,2) d(1)] show ?thesis by blast
      qed
      then show ?thesis by blast
    qed
  qed
qed

lemma try_body_root_not_text:
  assumes "truthy (ticker_root_of params tr)" "\<forall>r. ticker_root_of params tr \<noteq> Atom (AStr r)"
    and "fst (try_body L params tr cs fs w) = Inr d"
  shows "df_empty d"
proof (cases "read_parquet L cs (if fs = [] then None else Some fs)")
  case (Inl e)
  with assms(3) show ?thesis by (simp add: try_body_def Let_def)
next
  case (Inr df0)
  show ?thesis
  proof (cases "df_empty df0")
    case True
    with Inr assms(3) show ?thesis
      by (auto simp: try_body_def Let_def post_filter_def split: if_splits)
  next
    case False
    from filter_ticker_root_not_text [OF assms(1,2), of L df0]
    obtain e where "filter_ticker_root L params tr df0 = Inl e" by blast
    with False have "post_filter L params tr df0 = Inl e" by (simp add: post_filter_def)
    with Inr assms(3) show ?thesis by (simp add: try_body_def Let_def)
  qed
qed

lemma extend_all_head:
  "extend_all (Inr xs # ss) = Inr fs \<Longrightarrow> set xs \<subseteq> set fs"
  by (auto split: sum.splits)

lemma lower_options: "lower L ''options'' = ''options''"
  by (simp add: lower_def is_ascii_def ascii_lower_def lower_char_def less_eq_char_def)

text \<open>
  Claim C8, amended. For \<open>asset_class = 'options'\<close> with an entity: when \<open>find_assets\<close>
  matches nothing, \<open>get_quotes\<close> returns the empty \<open>DataFrame\<close> at once and issues no scan.
  When it matches, the first match's latest ticker begins with four capital letters and
  the call returns, then the root is these four letters, the one scan issued carries the
  predicate \<open>TPMERC in [70, 80, 12, 13]\<close>, and the rows are restricted by the effective
  root: with no true \<open>ticker_root\<close> criterion the result is empty or each of its rows has
  a ticker that starts with the entity's root; a true \<open>ticker_root\<close> criterion takes
  precedence, and the result is empty or each row's ticker starts with that criterion in
  capitals (and is empty when the criterion is not a text).
\<close>

theorem get_quotes_options_by_entity:
  assumes ac: "dict_get kw ''asset_class'' = Atom (AStr ''options'')"
    and ent: "truthy (dict_get kw ''entity'')"
    and fa: "find_assets L self (dict_get kw ''entity'') w = (Inr a, w1)"
  shows "(heap w1 a = [] \<longrightarrow> get_quotes L self kw w = (Inr empty_DataFrame, w1) \<and> scans w1 = scans w)
     \<and> (\<forall>first rest t rt df w2.
          heap w1 a = first # rest \<and> ULTIMO_TICKER first = Some t \<and> match_root t = Some rt
          \<and> get_quotes L self kw w = (Inr df, w2)
        \<longrightarrow> rt = take 4 t \<and> length rt = 4 \<and> list_all is_upper_AZ rt
          \<and> (\<not> truthy (dict_get kw ''ticker_root'') \<longrightarrow>
                df_empty df \<or> (\<forall>r\<in>set (recs df). \<exists>s. r ''CODNEG'' = CStr s \<and> startswith s rt))
          \<and> (\<forall>r'. truthy (dict_get kw ''ticker_root'') \<and> dict_get kw ''ticker_root'' = Atom (AStr r') \<longrightarrow>
                df_empty df \<or> (\<forall>r\<in>set (recs df). \<exists>s. r ''CODNEG'' = CStr s \<and> startswith s (upper L r')))
          \<and> (truthy (dict_get kw ''ticker_root'') \<and> (\<forall>r'. dict_get kw ''ticker_root'' \<noteq> Atom (AStr r')) \<longrightarrow>
                df_empty df)
          \<and> (\<exists>cols filters. scans w2 = scans w @ [(cols, Some filters)]
                \<and> (''TPMERC'', ''in'', FInts [70, 80, 12, 13]) \<in> set filters))"
proof -
  have sc: "scans w1 = scans w" using find_assets_scans [of L self "dict_get kw ''entity''" w] fa by simp
  have p1: "get_quotes L self kw w = (Inr empty_DataFrame, w1) \<and> scans w1 = scans w" if "heap w1 a = []"
    using that ac ent fa sc by (simp add: get_quotes_def entity_stage_def)
  have p2: "rt = take 4 t \<and> length rt = 4 \<and> list_all is_upper_AZ rt
          \<and> (\<not> truthy (dict_get kw ''ticker_root'') \<longrightarrow>
                df_empty df \<or> (\<forall>r\<in>set (recs df). \<exists>s. r ''CODNEG'' = CStr s \<and> startswith s rt))
          \<and> (\<forall>r'. truthy (dict_get kw ''ticker_root'') \<and> dict_get kw ''ticker_root'' = Atom (AStr r') \<longrightarrow>
                df_empty df \<or> (\<forall>r\<in>set (recs df). \<exists>s. r ''CODNEG'' = CStr s \<and> startswith s (upper L r')))
          \<and> (truthy (dict_get kw ''ticker_root'') \<and> (\<forall>r'. dict_get kw ''ticker_root'' \<noteq> Atom (AStr r')) \<longrightarrow>
                df_empty df)
          \<and> (\<exists>cols filters. scans w2 = scans w @ [(cols, Some filters)]
                \<and> (''TPMERC'', ''in'', FInts [70, 80, 12, 13]) \<in> set filters)"
    if h: "heap w1 a = first # rest" "ULTIMO_TICKER first = Some t" "match_root t = Some rt"
      "get_quotes L self kw w = (Inr df, w2)"
    for first rest t rt df w2
  proof -
    let ?params = "kw(''entity'' := None)"
    let ?tr = "dict_get kw ''ticker_root''"
    note mr = match_root_Some [OF h(3)]
    have es: "entity_stage L self kw w = (Continue (?params, Some rt), w1)"
      using ac ent fa h(1,2,3) by (simp add: entity_stage_def)
    have pac: "dict_get ?params ''asset_class'' = Atom (AStr ''options'')"
      using ac by (simp add: dict_get_def)
    then have "?params ''asset_class'' \<noteq> None" by (auto simp: dict_get_def split: option.splits)
    then have st: "list_ex (\<lambda>k. ?params k \<noteq> None) valid_starters"
      unfolding list_ex_iff valid_starters_def by (meson list.set_intros)
    have ptr: "dict_get ?params ''ticker_root'' = ?tr"
      by (simp add: dict_get_def)
    have rne: "rt \<noteq> []" using mr by auto
    from es st h(4) obtain fs cs where fc: "build_parquet_filters L self w1 ?params = Inr fs"
        "columns_to_load ?params = Inr cs"
        "scan_stage L ?params (Some rt) cs fs w1 = (Inr df, w2)"
      by (auto simp: get_quotes_def split: sum.splits)
    have acf: "asset_class_filters L ?params = Inr [(''TPMERC'', ''in'', FInts [70, 80, 12, 13])]"
      using pac by (simp add: asset_class_filters_def lower_options)
    have "set [(''TPMERC'', ''in'', FInts [70, 80, 12, 13])] \<subseteq> set fs"
      using fc(1) unfolding build_parquet_filters_def acf by (rule extend_all_head)
    then have tp: "(''TPMERC'', ''in'', FInts [70, 80, 12, 13]) \<in> set fs" by simp
    then have fne: "fs \<noteq> []" by auto
    from scan_stage_result [of L ?params "Some rt" cs fs w1] fc(3) fne
    have w2: "w2 = w1\<lparr> scans := scans w1 @ [(cs, Some fs)] \<rparr>"
      and dfc: "(case fst (try_body L ?params (Some rt) cs fs w1) of
            Inl e \<Rightarrow> df = empty_DataFrame | Inr d \<Rightarrow> df = d)" by auto
    have e0: "df_empty empty_DataFrame" by (simp add: empty_DataFrame_def df_empty_def)
    have rows1: "df_empty df \<or> (\<forall>r\<in>set (recs df). \<exists>s. r ''CODNEG'' = CStr s \<and> startswith s rt)"
      if nt: "\<not> truthy ?tr"
    proof (cases "fst (try_body L ?params (Some rt) cs fs w1)")
      case (Inl e)
      with dfc e0 show ?thesis by simp
    next
      case (Inr d)
      with dfc have "df = d" by simp
      moreover have "list_all is_upper_AZ rt" using mr by blast
      then have "upper L rt = rt" by (rule upper_AZ)
      moreover have tro: "ticker_root_of ?params (Some rt) = Atom (AStr rt)"
        using nt by (simp add: ticker_root_of_def ptr)
      ultimately show ?thesis using try_body_rows [OF tro rne Inr] by simp
    qed
    have rows2: "df_empty df \<or> (\<forall>r\<in>set (recs df). \<exists>s. r ''CODNEG'' = CStr s \<and> startswith s (upper L r'))"
      if tt: "truthy ?tr" "?tr = Atom (AStr r')" for r'
    proof (cases "fst (try_body L ?params (Some rt) cs fs w1)")
      case (Inl e)
      with dfc e0 show ?thesis by simp
    next
      case (Inr d)
      with dfc have "df = d" by simp
      moreover have tro: "ticker_root_of ?params (Some rt) = Atom (AStr r')"
        using tt by (simp add: ticker_root_of_def ptr)
      moreover have "r' \<noteq> []" using tt by auto
      ultimately show ?thesis using try_body_rows [OF tro _ Inr] by simp
    qed
    have rows3: "df_empty df" if tt: "truthy ?tr" "\<forall>r'. ?tr \<noteq> Atom (AStr r')"
    proof (cases "fst (try_body L ?params (Some rt) cs fs w1)")
      case (Inl e)
      with dfc e0 show ?thesis by simp
    next
      case (Inr d)
      with dfc have "df = d" by simp
      moreover have "ticker_root_of ?params (Some rt) = ?tr"
        using tt by (simp add: ticker_root_of_def ptr)
      ultimately show ?thesis using try_body_root_not_text [of ?params "Some rt" L cs fs w1 d] tt Inr
        by simp
    qed
    from w2 sc tp have "\<exists>cols filters. scans w2 = scans w @ [(cols, Some filters)]
                \<and> (''TPMERC'', ''in'', FInts [70, 80, 12, 13]) \<in> set filters" by auto
    with mr rows1 rows2 rows3 show ?thesis by blast
  qed
  from p1 p2 show ?thesis by blast
qed

theorem get_quotes_scan_failures_caught_witness:
  "raised (read_parquet lib_unreadable (remdups (key_columns @ default_columns))
            (Some [(''CODNEG'', ''in'', FStrs [''PETR4''])])) = Some ScanError
   \<and> get_quotes lib_unreadable engine0 [''tickers'' \<mapsto> Atom (AStr ''petr4'')] world0
       = (Inr empty_DataFrame,
          world0\<lparr> scans := scans world0 @ [(remdups (key_columns @ default_columns),
                     Some [(''CODNEG'', ''in'', FStrs [''PETR4''])])] \<rparr>)
   \<and> raised (fst (get_quotes lib_unreadable engine0 kwargs_options_b3 world0)) = Some AttributeError
   \<and> scans (snd (get_quotes lib_unreadable engine0 kwargs_options_b3 world0)) = scans world0"
proof -
  let ?kw = "[''tickers'' \<mapsto> Atom (AStr ''petr4'')]"
  let ?cs = "remdups (key_columns @ default_columns)"
  let ?fs = "[(''CODNEG'', ''in'', FStrs [''PETR4''])]"
  have es: "entity_stage lib_unreadable engine0 ?kw world0 = (Continue (?kw, None), world0)"
    by (rule entity_stage_no_entity) (simp add: dict_get_def)
  have st: "list_ex (\<lambda>k. ?kw k \<noteq> None) valid_starters"
    by (simp add: valid_starters_def)
  have bf: "build_parquet_filters lib_unreadable engine0 world0 ?kw = Inr ?fs"
    by code_simp
  have cl: "columns_to_load ?kw = Inr ?cs"
    by code_simp
  have rp: "read_parquet lib_unreadable ?cs (if ?fs = [] then None else Some ?fs) = Inl ScanError"
    by (simp add: lib_unreadable_def)
  have rp': "raised (read_parquet lib_unreadable ?cs (Some ?fs)) = Some ScanError"
    by (simp add: lib_unreadable_def raised_def)
  have r: "raised (fst (get_quotes lib_unreadable engine0 kwargs_options_b3 world0)) = Some AttributeError"
    by code_simp
  then have r': "fst (get_quotes lib_unreadable engine0 kwargs_options_b3 world0) = Inl AttributeError"
    by (cases "fst (get_quotes lib_unreadable engine0 kwargs_options_b3 world0)") (simp_all add: raised_def)
  note t1 = get_quotes_scan_failures_caught [where L = lib_unreadable and self = engine0
      and kwargs = ?kw and w = world0]
  note t2 = get_quotes_scan_failures_caught [where L = lib_unreadable and self = engine0
      and kwargs = kwargs_options_b3 and w = world0]
  from t1 es st bf cl obtain df where
    g: "get_quotes lib_unreadable engine0 ?kw world0 =
          (Inr df, world0\<lparr> scans := scans world0 @ [(?cs, if ?fs = [] then None else Some ?fs)] \<rparr>)"
    and e: "(\<exists>e. read_parquet lib_unreadable ?cs (if ?fs = [] then None else Some ?fs) = Inl e)
              \<longrightarrow> df = empty_DataFrame"
    by blast
  from e rp have "df = empty_DataFrame" by blast
  with g have g': "get_quotes lib_unreadable engine0 ?kw world0 =
          (Inr empty_DataFrame, world0\<lparr> scans := scans world0 @ [(?cs, Some ?fs)] \<rparr>)" by simp
  from t2 r' have "scans (snd (get_quotes lib_unreadable engine0 kwargs_options_b3 world0)) = scans world0"
    by blast
  with g' rp' r show ?thesis by blast
qed

theorem queries_leave_security_master_unchanged_witness:
  "df_dicionario engine0 < next_addr world0
   \<and> heap (snd (find_assets lib0 engine0 (Atom (AStr ''VALE'')) world0)) (df_dicionario engine0) = master0
   \<and> heap (snd (get_asset_info lib0 engine0 (Atom (AStr ''VALE'')) world0)) (df_dicionario engine0) = master0
   \<and> heap (snd (get_quotes lib0 engine0 kwargs_options_vale world0)) (df_dicionario engine0) = master0
   \<and> dicts (snd (get_quotes lib0 engine0 kwargs_options_vale world0)) = dicts world0
   \<and> snd (list_tickers lib0 engine0 (Atom (AStr ''todos'')) world0) = world0
   \<and> fst (list_tickers lib0 engine0 (Atom (AStr ''todos'')) world0) = Inr [Some ''B3SA3'', Some ''VALE3'']
   \<and> fst (find_assets lib0 engine0 (Atom (AStr ''VALE'')) world0) = Inr 1
   \<and> heap ((snd (find_assets lib0 engine0 (Atom (AStr ''VALE'')) world0))
         \<lparr> heap := (heap (snd (find_assets lib0 engine0 (Atom (AStr ''VALE'')) world0)))(1 := []) \<rparr>)
       (df_dicionario engine0) = master0"
proof -
  let ?q = "Atom (AStr ''VALE'')"
  have a: "df_dicionario engine0 < next_addr world0" by (simp add: engine0_def world0_def)
  have m: "heap world0 (df_dicionario engine0) = master0" by (simp add: engine0_def world0_def)
  have f: "fst (find_assets lib0 engine0 ?q world0) = Inr 1" by code_simp
  then have p: "find_assets lib0 engine0 ?q world0 = (Inr 1, snd (find_assets lib0 engine0 ?q world0))"
    by (metis prod.collapse)
  have l: "fst (list_tickers lib0 engine0 (Atom (AStr ''todos'')) world0) = Inr [Some ''B3SA3'', Some ''VALE3'']"
    by code_simp
  from queries_leave_security_master_unchanged
    [OF a, where L = lib0 and q = ?q and kwargs = kwargs_options_vale and asset_type = "Atom (AStr ''todos'')"]
    p a m f l
  show ?thesis by auto
qed

theorem get_quotes_options_by_entity_witness:
  "dict_get kwargs_options_vale ''asset_class'' = Atom (AStr ''options'')
   \<and> truthy (dict_get kwargs_options_vale ''entity'')
   \<and> fst (find_assets lib0 engine0 (dict_get kwargs_options_vale ''entity'') world0) = Inr 1
   \<and> map ULTIMO_TICKER (heap (snd (find_assets lib0 engine0 (dict_get kwargs_options_vale ''entity'') world0)) 1)
        = [Some ''VALE3'']
   \<and> match_root ''VALE3'' = Some ''VALE''
   \<and> \<not> truthy (dict_get kwargs_options_vale ''ticker_root'')
   \<and> returned_tickers (fst (get_quotes lib0 engine0 kwargs_options_vale world0))
        = [CStr ''VALEA123'', CStr ''VALEA123'']
   \<and> (\<exists>df w2. get_quotes lib0 engine0 kwargs_options_vale world0 = (Inr df, w2)
        \<and> (df_empty df \<or> (\<forall>r\<in>set (recs df). \<exists>s. r ''CODNEG'' = CStr s \<and> startswith s ''VALE''))
        \<and> (\<exists>cols filters. scans w2 = scans world0 @ [(cols, Some filters)]
              \<and> (''TPMERC'', ''in'', FInts [70, 80, 12, 13]) \<in> set filters))
   \<and> dict_get kwargs_options_vale_petr ''ticker_root'' = Atom (AStr ''petr'')
   \<and> upper lib0 ''petr'' = ''PETR''
   \<and> (\<exists>df w2. get_quotes lib0 engine0 kwargs_options_vale_petr world0 = (Inr df, w2)
        \<and> (df_empty df \<or> (\<forall>r\<in>set (recs df). \<exists>s. r ''CODNEG'' = CStr s \<and> startswith s ''PETR'')))
   \<and> heap (snd (find_assets lib0 engine0 (dict_get kwargs_options_unknown ''entity'') world0)) 1 = []
   \<and> get_quotes lib0 engine0 kwargs_options_unknown world0
        = (Inr empty_DataFrame, snd (find_assets lib0 engine0 (dict_get kwargs_options_unknown ''entity'') world0))"
proof -
  let ?e = "dict_get kwargs_options_vale ''entity''"
  let ?w1 = "snd (find_assets lib0 engine0 ?e world0)"
  have ac: "dict_get kwargs_options_vale ''asset_class'' = Atom (AStr ''options'')" by code_simp
  have ent: "truthy ?e" by code_simp
  have f: "fst (find_assets lib0 engine0 ?e world0) = Inr 1" by code_simp
  then have fa: "find_assets lib0 engine0 ?e world0 = (Inr 1, ?w1)" by (metis prod.collapse)
  have h: "heap ?w1 1 = [master0 ! 1]" by code_simp
  have ut: "ULTIMO_TICKER (master0 ! 1) = Some ''VALE3''" by code_simp
  have mr: "match_root ''VALE3'' = Some ''VALE''" by code_simp
  have tr: "\<not> truthy (dict_get kwargs_options_vale ''ticker_root'')" by code_simp
  have rt: "returned_tickers (fst (get_quotes lib0 engine0 kwargs_options_vale world0))
        = [CStr ''VALEA123'', CStr ''VALEA123'']" by code_simp
  have "raised (fst (get_quotes lib0 engine0 kwargs_options_vale world0)) = None" by code_simp
  then obtain df where "fst (get_quotes lib0 engine0 kwargs_options_vale world0) = Inr df"
    by (cases "fst (get_quotes lib0 engine0 kwargs_options_vale world0)") (simp_all add: raised_def)
  then have gq: "get_quotes lib0 engine0 kwargs_options_vale world0
       = (Inr df, snd (get_quotes lib0 engine0 kwargs_options_vale world0))"
    by (metis prod.collapse)
  note inst = get_quotes_options_by_entity [OF ac ent fa]
  from inst h ut mr tr gq
  have main: "(df_empty df \<or> (\<forall>r\<in>set (recs df). \<exists>s. r ''CODNEG'' = CStr s \<and> startswith s ''VALE''))
        \<and> (\<exists>cols filters. scans (snd (get_quotes lib0 engine0 kwargs_options_vale world0))
               = scans world0 @ [(cols, Some filters)]
              \<and> (''TPMERC'', ''in'', FInts [70, 80, 12, 13]) \<in> set filters)"
    by blast
  from gq main have part1: "\<exists>df w2. get_quotes lib0 engine0 kwargs_options_vale world0 = (Inr df, w2)
        \<and> (df_empty df \<or> (\<forall>r\<in>set (recs df). \<exists>s. r ''CODNEG'' = CStr s \<and> startswith s ''VALE''))
        \<and> (\<exists>cols filters. scans w2 = scans world0 @ [(cols, Some filters)]
              \<and> (''TPMERC'', ''in'', FInts [70, 80, 12, 13]) \<in> set filters)" by blast

  let ?e3 = "dict_get kwargs_options_vale_petr ''entity''"
  let ?w3 = "snd (find_assets lib0 engine0 ?e3 world0)"
  have ac3: "dict_get kwargs_options_vale_petr ''asset_class'' = Atom (AStr ''options'')" by code_simp
  have ent3: "truthy ?e3" by code_simp
  have "fst (find_assets lib0 engine0 ?e3 world0) = Inr 1" by code_simp
  then have fa3: "find_assets lib0 engine0 ?e3 world0 = (Inr 1, ?w3)" by (metis prod.collapse)
  have h3: "heap ?w3 1 = [master0 ! 1]" by code_simp
  have tr3: "dict_get kwargs_options_vale_petr ''ticker_root'' = Atom (AStr ''petr'')" by code_simp
  have tt3: "truthy (dict_get kwargs_options_vale_petr ''ticker_root'')" by code_simp
  have up: "upper lib0 ''petr'' = ''PETR''" by code_simp
  have "raised (fst (get_quotes lib0 engine0 kwargs_options_vale_petr world0)) = None" by code_simp
  then obtain df3 where "fst (get_quotes lib0 engine0 kwargs_options_vale_petr world0) = Inr df3"
    by (cases "fst (get_quotes lib0 engine0 kwargs_options_vale_petr world0)") (simp_all add: raised_def)
  then have gq3: "get_quotes lib0 engine0 kwargs_options_vale_petr world0
       = (Inr df3, snd (get_quotes lib0 engine0 kwargs_options_vale_petr world0))"
    by (metis prod.collapse)
  from get_quotes_options_by_entity [OF ac3 ent3 fa3] h3 ut mr gq3 tr3 tt3
  have "df_empty df3 \<or> (\<forall>r\<in>set (recs df3). \<exists>s. r ''CODNEG'' = CStr s \<and> startswith s (upper lib0 ''petr''))"
    by blast
  with up gq3 have part3: "\<exists>df w2. get_quotes lib0 engine0 kwargs_options_vale_petr world0 = (Inr df, w2)
        \<and> (df_empty df \<or> (\<forall>r\<in>set (recs df). \<exists>s. r ''CODNEG'' = CStr s \<and> startswith s ''PETR''))"
    by auto

  let ?e2 = "dict_get kwargs_options_unknown ''entity''"
  let ?w2 = "snd (find_assets lib0 engine0 ?e2 world0)"
  have ac2: "dict_get kwargs_options_unknown ''asset_class'' = Atom (AStr ''options'')" by code_simp
  have ent2: "truthy ?e2" by code_simp
  have "fst (find_assets lib0 engine0 ?e2 world0) = Inr 1" by code_simp
  then have fa2: "find_assets lib0 engine0 ?e2 world0 = (Inr 1, ?w2)" by (metis prod.collapse)
  have h2: "heap ?w2 1 = []" by code_simp
  from get_quotes_options_by_entity [OF ac2 ent2 fa2] h2
  have none: "get_quotes lib0 engine0 kwargs_options_unknown world0 = (Inr empty_DataFrame, ?w2)"
    by blast
  from h ut have "map ULTIMO_TICKER (heap ?w1 1) = [Some ''VALE3'']" by simp
  with ac ent f mr tr rt part1 tr3 up part3 h2 none show ?thesis by blast
qed

text \<open>
  The claim as first stated fails when a \<open>ticker_root\<close> criterion comes with the entity:
  \<open>params.get('ticker_root') or ticker_root_for_options\<close> prefers the criterion, and the rows
  returned for the entity \<open>VALE\<close> (root \<open>VALE\<close>) start with \<open>PETR\<close>.
\<close>

theorem get_quotes_options_by_entity_counterexample:
  "dict_get kwargs_options_vale_petr ''asset_class'' = Atom (AStr ''options'')
   \<and> dict_get kwargs_options_vale_petr ''entity'' = Atom (AStr ''VALE'')
   \<and> map ULTIMO_TICKER (heap (snd (find_assets lib0 engine0 (Atom (AStr ''VALE'')) world0)) 1)
        = [Some ''VALE3'']
   \<and> match_root ''VALE3'' = Some ''VALE''
   \<and> returned_tickers (fst (get_quotes lib0 engine0 kwargs_options_vale_petr world0)) = [CStr ''PETRH20'']
   \<and> \<not> startswith ''PETRH20'' ''VALE''"
  by code_simp

text \<open>
  A latest ticker that does not begin with four capital letters (\<open>B3SA3\<close>) makes
  \<open>re.match\<close> return \<open>None\<close>, and \<open>.group(0)\<close> raises outside the guarded stage.
\<close>

lemma get_quotes_options_rootless_ticker_raises:
  "map ULTIMO_TICKER (heap (snd (find_assets lib0 engine0 (Atom (AStr ''B3'')) world0)) 1) = [Some ''B3SA3'']
   \<and> match_root ''B3SA3'' = None
   \<and> raised (fst (get_quotes lib0 engine0 kwargs_options_b3 world0)) = Some AttributeError"
  by code_simp

section \<open>Properties of the decoder and the batch writer\<close>













lemma chunks_Nil: "chunks n [] = []"
  by (subst chunks.simps) simp

lemma chunks_short: "xs \<noteq> [] \<Longrightarrow> length xs \<le> n \<Longrightarrow> chunks n xs = [xs]"
  by (subst chunks.simps) (cases xs; simp add: chunks_Nil)

lemma process_file_one_batch:
  assumes "butlast (tl lines) \<noteq> []" "length (butlast (tl lines)) \<le> BATCH_SIZE"
  shows "process_file P (Inr lines) st = snd (process_batch P (butlast (tl lines)) st)"
proof -
  have "chunks BATCH_SIZE (butlast (tl lines)) = [butlast (tl lines)]"
    using assms by (rule chunks_short)
  then show ?thesis using assms(1)
    by (cases "process_batch P (butlast (tl lines)) st")
       (auto simp: process_file_def Let_def split: option.splits)
qed



lemma int_col_kind: "col \<in> set INT_COLS \<Longrightarrow> col \<notin> set DATE_COLS \<and> col \<notin> set PRICE_COLS"
  by (auto simp: INT_COLS_def DATE_COLS_def PRICE_COLS_def)

lemma price_col_kind: "col \<in> set PRICE_COLS \<Longrightarrow> col \<notin> set DATE_COLS"
  by (auto simp: DATE_COLS_def PRICE_COLS_def)

text \<open>What \<open>errors='coerce'\<close> achieves: a date, a price or an integer field whose text the
  library does not read becomes the missing value, and the conversion does not raise.\<close>

lemma decode_cell_unparsable_missing:
  "col \<in> set DATE_COLS \<Longrightarrow> to_datetime_ymd P (strip raw) = None \<Longrightarrow> decode_cell P col raw = Inr Missing"
  "col \<in> set PRICE_COLS \<Longrightarrow> to_numeric P (strip raw) = None \<Longrightarrow> decode_cell P col raw = Inr Missing"
  "col \<in> set INT_COLS \<Longrightarrow> to_numeric P (strip raw) = None \<Longrightarrow> decode_cell P col raw = Inr Missing"
  by (auto simp: decode_cell_def Let_def dest: int_col_kind price_col_kind)

lemma map_exn_raises:
  "x \<in> set xs \<Longrightarrow> f x = Inl e \<Longrightarrow> \<exists>e'. map_exn f xs = Inl e'"
  by (induction xs) (auto split: sum.splits)

lemma strip_Nil: "strip [] = []"
  by (simp add: strip_def strip_chars_def)

text \<open>
  Claim C6 fails on the code for an integer-coded field whose text reads as a number
  that is not whole (\<open>1.5\<close>): \<open>pd.to_numeric\<close> returns the number and \<open>.astype('Int64')\<close>
  raises, so the field does not become missing. The exception leaves the batch, and the
  file: nothing of the batch is written, its well-formed lines included, and the later
  batches of the file are not read.
\<close>

theorem decoder_raises_on_fractional_integer_field:
  assumes "(col, spec) \<in> set (zip NAMES COLSPECS)"
    and "col \<in> set INT_COLS"
    and "strip (field_text line spec) \<noteq> []"
    and "\<not> na_text P (field_text line spec)"
    and "to_numeric P (strip (field_text line spec)) = Some (Finite q)"
    and "q \<noteq> of_int \<lfloor>q\<rfloor>"
    and "line \<in> set batch_lines"
  shows "decode_cell P col (field_text line spec) = Inl TypeError
     \<and> (\<exists>e. decode_batch P batch_lines = Inl e
           \<and> process_batch P batch_lines st = (Some e, st)
           \<and> process_batches P (batch_lines # later) st = (Some e, st))"
proof -
  let ?raw = "field_text line spec"
  have rne: "?raw \<noteq> []" using assms(3) strip_Nil by auto
  have cell: "decode_cell P col ?raw = Inl TypeError"
    using assms(2,4,5,6) rne int_col_kind [OF assms(2)]
    by (simp add: decode_cell_def Let_def)
  let ?f = "\<lambda>(col, spec). case decode_cell P col (field_text line spec) of
                               Inl e \<Rightarrow> (Inl e :: exn + string \<times> dcell)
                             | Inr v \<Rightarrow> Inr (col, v)"
  have "?f (col, spec) = Inl TypeError" using cell by simp
  from map_exn_raises [of "(col, spec)" "zip NAMES COLSPECS" ?f TypeError, OF assms(1) this]
  obtain e1 where l: "decode_line P line = Inl e1"
    unfolding decode_line_def by blast
  have "spec \<in> set COLSPECS" using assms(1) by (rule set_zip_rightD)
  with assms(3) have "\<not> all_blank line" by (auto simp: all_blank_def list_all_iff)
  with assms(7) have "line \<in> set (filter (\<lambda>l. \<not> all_blank l) batch_lines)" by simp
  from map_exn_raises [of line "filter (\<lambda>l. \<not> all_blank l) batch_lines" "decode_line P" e1, OF this l]
  obtain e where b: "decode_batch P batch_lines = Inl e"
    unfolding decode_batch_def by blast
  then have "process_batch P batch_lines st = (Some e, st)" by (simp add: process_batch_def)
  with b cell show ?thesis by simp
qed

theorem decoder_raises_on_fractional_integer_field_witness:
  "(''TOTNEG'', (147, 152)) \<in> set (zip NAMES COLSPECS)
   \<and> ''TOTNEG'' \<in> set INT_COLS
   \<and> field_text line_bad_count (147, 152) = ''1.5''
   \<and> to_numeric pdlib0 ''1.5'' = Some (Finite (3 / 2))
   \<and> decode_cell pdlib0 ''TOTNEG'' ''1.5'' = Inl TypeError
   \<and> decode_cell pdlib0 ''PREABE'' ''00000000ABCDE'' = Inr Missing
   \<and> raised (decode_batch pdlib0 [line_petr4, line_bad_count, line_bad_price]) = Some TypeError
   \<and> written (process_text_to_parquet pdlib0 dir_bad_count) = []
   \<and> length (written (process_text_to_parquet pdlib0 dir_good_count)) = 1"
proof -
  let ?b = "[line_petr4, line_bad_count, line_bad_price]"
  let ?init = "\<lparr> final_schema = None, written = [] \<rparr> :: build_state"
  have z: "(''TOTNEG'', (147, 152)) \<in> set (zip NAMES COLSPECS)" by code_simp
  have c: "''TOTNEG'' \<in> set INT_COLS" by code_simp
  have f: "field_text line_bad_count (147, 152) = ''1.5''" by code_simp
  have s: "strip ''1.5'' = ''1.5''" by code_simp
  have n: "to_numeric pdlib0 ''1.5'' = Some (Finite (3 / 2))" by code_simp
  have na: "\<not> na_text pdlib0 ''1.5''" by code_simp
  have q: "(3 / 2 :: rat) \<noteq> of_int \<lfloor>3 / 2 :: rat\<rfloor>" by code_simp
  have p: "decode_cell pdlib0 ''PREABE'' ''00000000ABCDE'' = Inr Missing" by code_simp
  have mem: "line_bad_count \<in> set ?b" by simp
  note t = decoder_raises_on_fractional_integer_field
    [where col = "''TOTNEG''" and spec = "(147, 152)" and line = line_bad_count and P = pdlib0
       and q = "3 / 2" and batch_lines = ?b and st = ?init and later = "[]"]
  from t z c f s n na q mem
  have cell: "decode_cell pdlib0 ''TOTNEG'' ''1.5'' = Inl TypeError"
    and ex: "\<exists>e. decode_batch pdlib0 ?b = Inl e
           \<and> process_batch pdlib0 ?b ?init = (Some e, ?init)" by auto
  have r: "raised (decode_batch pdlib0 ?b) = Some TypeError" by code_simp
  have fb: "map snd (files_to_process pdlib0 dir_bad_count)
      = [Inr [header_line, line_petr4, line_bad_count, line_bad_price, trailer_line]]" by code_simp
  from ex have "snd (process_batch pdlib0 ?b ?init) = ?init" by auto
  then have wb: "written (process_text_to_parquet pdlib0 dir_bad_count) = []"
    unfolding process_text_to_parquet_def fb
    by (simp add: process_file_one_batch BATCH_SIZE_def)
  have fg: "map snd (files_to_process pdlib0 dir_good_count)
      = [Inr [header_line, line_petr4, line_bad_price, trailer_line]]" by code_simp
  have g: "length (written (snd (process_batch pdlib0 [line_petr4, line_bad_price] ?init))) = 1"
    by code_simp
  have wg: "length (written (process_text_to_parquet pdlib0 dir_good_count)) = 1"
    unfolding process_text_to_parquet_def fg
    using g by (simp add: process_file_one_batch BATCH_SIZE_def)
  from z c f n cell p r wb wg show ?thesis by blast
qed

end
